theory Spec2Isabelle
  imports Complex_Main "HOL-Library.Word"
begin

section \<open>The on-chain module \<open>game_nft::resource_game\<close> (game_nft.move)\<close>

text \<open>
  Move's \<open>u64\<close> is a 64-bit word whose arithmetic aborts the transaction on overflow,
  underflow and division by zero. Addresses and object ids are 32-byte values. An entry
  function returns \<open>Inl code\<close> when it aborts and \<open>Inr\<close> of the updated objects when it
  returns. Events are write-only log entries and are left out.
\<close>

type_synonym u8 = "8 word"
type_synonym u64 = "64 word"
type_synonym address = "256 word"
type_synonym ID = "256 word"

datatype abort_code =
    E_NOT_PARTICIPANT
  | E_GENERATOR_OCCUPIED
  | E_NOT_OWNER
  | E_INSUFFICIENT_RESOURCES
  | ARITHMETIC_ERROR
  | EINDEX_OUT_OF_BOUNDS
  | INVALID_TRANSACTION

definition GENERATION_INTERVAL_MS :: u64 where
  "GENERATION_INTERVAL_MS = 60000"

definition BASE_GENERATION :: u64 where
  "BASE_GENERATION = 10"

definition BASE_CAP :: u64 where
  "BASE_CAP = 1000"

definition WOOD :: u8 where
  "WOOD = 0"

definition STONE :: u8 where
  "STONE = 1"

record GameMatch =
  gm_id :: ID
  creator :: address
  participants :: "address list"

record PlayerResources =
  pr_id :: ID
  pr_game_id :: ID
  pr_owner :: address
  wood :: u64
  stone :: u64
  emerald :: u64

record Generator =
  gen_id :: ID
  gen_game_id :: ID
  resource_type :: u8
  gen_x :: u64
  gen_y :: u64
  gen_owner :: address
  gen_level :: u64
  generation_rate :: u64
  max_cap :: u64
  gen_unclaimed :: u64
  last_claim_time :: u64
  last_recaptured_by :: address
  last_recaptured_from :: address

record TradeProposal =
  tp_id :: ID
  tp_game_id :: ID
  proposer :: address
  target :: address
  wood_offered :: u64
  stone_offered :: u64
  emerald_offered :: u64
  wood_requested :: u64
  stone_requested :: u64
  emerald_requested :: u64

text \<open>
  The transaction context: the sender, and the ids \<open>object::new\<close> hands out, in order.
\<close>

record TxContext =
  tx_sender :: address
  fresh_id :: "nat \<Rightarrow> ID"
  ids_created :: nat

definition object_new :: "TxContext \<Rightarrow> ID \<times> TxContext" where
  "object_new ctx = (fresh_id ctx (ids_created ctx), ctx\<lparr>ids_created := Suc (ids_created ctx)\<rparr>)"

subsection \<open>Checked \<open>u64\<close> arithmetic\<close>

definition add_u64 :: "u64 \<Rightarrow> u64 \<Rightarrow> abort_code + u64" where
  "add_u64 a b = (if unat a + unat b < 2 ^ 64 then Inr (a + b) else Inl ARITHMETIC_ERROR)"

definition sub_u64 :: "u64 \<Rightarrow> u64 \<Rightarrow> abort_code + u64" where
  "sub_u64 a b = (if b \<le> a then Inr (a - b) else Inl ARITHMETIC_ERROR)"

definition mul_u64 :: "u64 \<Rightarrow> u64 \<Rightarrow> abort_code + u64" where
  "mul_u64 a b = (if unat a * unat b < 2 ^ 64 then Inr (a * b) else Inl ARITHMETIC_ERROR)"

definition and_then :: "abort_code + 'a \<Rightarrow> ('a \<Rightarrow> abort_code + 'b) \<Rightarrow> abort_code + 'b" where
  "and_then r k = (case r of Inl e \<Rightarrow> Inl e | Inr v \<Rightarrow> k v)"

subsection \<open>Entry functions on generators\<close>

text \<open>
  \<open>create_generators\<close>: the loop \<open>while (i < len)\<close> walks \<open>x_coords\<close>; \<open>vector::borrow\<close>
  on \<open>y_coords\<close> aborts when that vector is shorter. Every generator made is handed to
  \<open>transfer::share_object\<close>: the result lists the objects shared.
\<close>

fun create_generators_loop ::
  "ID \<Rightarrow> u8 \<Rightarrow> u64 \<Rightarrow> u64 list \<Rightarrow> u64 list \<Rightarrow> TxContext \<Rightarrow> abort_code + (Generator list \<times> TxContext)"
where
  "create_generators_loop game_id rt current_time [] ys ctx = Inr ([], ctx)"
| "create_generators_loop game_id rt current_time (x # xs) [] ctx = Inl EINDEX_OUT_OF_BOUNDS"
| "create_generators_loop game_id rt current_time (x # xs) (y # ys) ctx =
     (let (uid, ctx') = object_new ctx;
          generator = \<lparr> gen_id = uid, gen_game_id = game_id, resource_type = rt,
            gen_x = x, gen_y = y, gen_owner = 0, gen_level = 0,
            generation_rate = BASE_GENERATION, max_cap = BASE_CAP, gen_unclaimed = 0,
            last_claim_time = current_time, last_recaptured_by = 0,
            last_recaptured_from = 0 \<rparr>
      in and_then (create_generators_loop game_id rt current_time xs ys ctx')
           (\<lambda>(gs, ctx''). Inr (generator # gs, ctx'')))"

definition create_generators ::
  "GameMatch \<Rightarrow> u8 \<Rightarrow> u64 list \<Rightarrow> u64 list \<Rightarrow> u64 \<Rightarrow> TxContext \<Rightarrow> abort_code + (Generator list \<times> TxContext)"
where
  "create_generators game rt x_coords y_coords clock ctx =
     (let sender = tx_sender ctx in
      if sender \<noteq> creator game then Inl E_NOT_PARTICIPANT
      else create_generators_loop (gm_id game) rt clock x_coords y_coords ctx)"

definition claim_generator ::
  "GameMatch \<Rightarrow> Generator \<Rightarrow> u64 \<Rightarrow> TxContext \<Rightarrow> abort_code + Generator"
where
  "claim_generator game generator clock ctx =
     (let sender = tx_sender ctx in
      if sender \<notin> set (participants game) then Inl E_NOT_PARTICIPANT
      else if gen_owner generator \<noteq> 0 then Inl E_GENERATOR_OCCUPIED
      else Inr (generator\<lparr>gen_owner := sender, last_claim_time := clock\<rparr>))"

definition claim_resources ::
  "Generator \<Rightarrow> PlayerResources \<Rightarrow> u64 \<Rightarrow> TxContext \<Rightarrow> abort_code + (Generator \<times> PlayerResources)"
where
  "claim_resources generator player_resources clock ctx =
     (let sender = tx_sender ctx in
      if gen_owner generator \<noteq> sender then Inl E_NOT_OWNER
      else if pr_owner player_resources \<noteq> sender then Inl E_NOT_OWNER
      else
        let current_time = clock in
        and_then (sub_u64 current_time (last_claim_time generator)) (\<lambda>time_diff.
        let intervals = time_diff div GENERATION_INTERVAL_MS in
        and_then (mul_u64 intervals (generation_rate generator)) (\<lambda>generated.
        and_then (add_u64 (gen_unclaimed generator) generated) (\<lambda>total.
        let to_claim = (if total > max_cap generator then max_cap generator else total) in
        if to_claim > 0 then
          and_then
            (if resource_type generator = WOOD then
               and_then (add_u64 (wood player_resources) to_claim)
                 (\<lambda>v. Inr (player_resources\<lparr>wood := v\<rparr>))
             else if resource_type generator = STONE then
               and_then (add_u64 (stone player_resources) to_claim)
                 (\<lambda>v. Inr (player_resources\<lparr>stone := v\<rparr>))
             else
               and_then (add_u64 (emerald player_resources) to_claim)
                 (\<lambda>v. Inr (player_resources\<lparr>emerald := v\<rparr>)))
            (\<lambda>player_resources'.
               Inr (generator\<lparr>gen_unclaimed := 0, last_claim_time := current_time\<rparr>,
                    player_resources'))
        else Inr (generator, player_resources)))))"

definition upgrade_generator ::
  "Generator \<Rightarrow> PlayerResources \<Rightarrow> TxContext \<Rightarrow> abort_code + (Generator \<times> PlayerResources)"
where
  "upgrade_generator generator player_resources ctx =
     (let sender = tx_sender ctx in
      if gen_owner generator \<noteq> sender then Inl E_NOT_OWNER
      else if pr_owner player_resources \<noteq> sender then Inl E_NOT_OWNER
      else
        and_then (add_u64 (gen_level generator) 1) (\<lambda>level1.
        and_then (mul_u64 100 level1) (\<lambda>cost.
        if \<not> wood player_resources \<ge> cost then Inl E_INSUFFICIENT_RESOURCES
        else if \<not> stone player_resources \<ge> cost then Inl E_INSUFFICIENT_RESOURCES
        else if \<not> emerald player_resources \<ge> cost div 2 then Inl E_INSUFFICIENT_RESOURCES
        else
          and_then (sub_u64 (wood player_resources) cost) (\<lambda>w.
          and_then (sub_u64 (stone player_resources) cost) (\<lambda>s.
          and_then (sub_u64 (emerald player_resources) (cost div 2)) (\<lambda>e.
          and_then (add_u64 (gen_level generator) 1) (\<lambda>new_level.
          and_then (mul_u64 BASE_GENERATION 2) (\<lambda>rate2.
          and_then (add_u64 new_level 1) (\<lambda>level2.
          and_then (mul_u64 rate2 level2) (\<lambda>new_rate.
          and_then (add_u64 new_level 1) (\<lambda>level3.
          and_then (mul_u64 BASE_CAP level3) (\<lambda>new_cap.
            Inr (generator\<lparr>gen_level := new_level, generation_rate := new_rate,
                   max_cap := new_cap\<rparr>,
                 player_resources\<lparr>wood := w, stone := s, emerald := e\<rparr>)))))))))))))"

definition recapture_generator ::
  "GameMatch \<Rightarrow> Generator \<Rightarrow> PlayerResources \<Rightarrow> u64 \<Rightarrow> TxContext
     \<Rightarrow> abort_code + (Generator \<times> PlayerResources)"
where
  "recapture_generator game generator attacker_resources clock ctx =
     (let sender = tx_sender ctx in
      if sender \<notin> set (participants game) then Inl E_NOT_PARTICIPANT
      else if \<not> gen_owner generator \<noteq> 0 then Inl E_NOT_OWNER
      else if \<not> gen_owner generator \<noteq> sender then Inl E_NOT_OWNER
      else
        let previous_owner = gen_owner generator;
            current_time = clock in
        and_then (sub_u64 current_time (last_claim_time generator)) (\<lambda>time_diff.
        let intervals = time_diff div GENERATION_INTERVAL_MS in
        and_then (mul_u64 intervals (generation_rate generator)) (\<lambda>generated.
        and_then (add_u64 (gen_unclaimed generator) generated) (\<lambda>total.
        let stolen = (if total > max_cap generator then max_cap generator else total) in
        and_then
          (if stolen > 0 then
             (if resource_type generator = WOOD then
                and_then (add_u64 (wood attacker_resources) stolen)
                  (\<lambda>v. Inr (attacker_resources\<lparr>wood := v\<rparr>))
              else if resource_type generator = STONE then
                and_then (add_u64 (stone attacker_resources) stolen)
                  (\<lambda>v. Inr (attacker_resources\<lparr>stone := v\<rparr>))
              else
                and_then (add_u64 (emerald attacker_resources) stolen)
                  (\<lambda>v. Inr (attacker_resources\<lparr>emerald := v\<rparr>)))
           else Inr attacker_resources)
          (\<lambda>attacker_resources'.
             Inr (generator\<lparr>gen_owner := sender, gen_level := 0,
                    generation_rate := BASE_GENERATION, max_cap := BASE_CAP,
                    gen_unclaimed := 0, last_claim_time := current_time,
                    last_recaptured_by := sender,
                    last_recaptured_from := previous_owner\<rparr>,
                  attacker_resources'))))))"

text \<open>
  The generator states the four entry functions can produce: a generator is created by
  \<open>create_generators\<close> and then changed by calls that return (an abort commits nothing).
\<close>

inductive reachable :: "Generator \<Rightarrow> bool" where
  created:
    "create_generators game rt x_coords y_coords clock ctx = Inr (gs, ctx') \<Longrightarrow> g \<in> set gs
       \<Longrightarrow> reachable g"
| claimed:
    "reachable g \<Longrightarrow> claim_generator game g clock ctx = Inr g' \<Longrightarrow> reachable g'"
| resources_claimed:
    "reachable g \<Longrightarrow> claim_resources g player_resources clock ctx = Inr (g', pr') \<Longrightarrow> reachable g'"
| recaptured:
    "reachable g \<Longrightarrow> recapture_generator game g attacker_resources clock ctx = Inr (g', ar')
       \<Longrightarrow> reachable g'"

subsection \<open>Trades\<close>

definition accept_trade ::
  "TradeProposal \<Rightarrow> PlayerResources \<Rightarrow> PlayerResources \<Rightarrow> TxContext
     \<Rightarrow> abort_code + (PlayerResources \<times> PlayerResources)"
where
  "accept_trade proposal proposer_resources accepter_resources ctx =
     (let accepter = tx_sender ctx in
      if accepter \<noteq> target proposal then Inl E_NOT_OWNER
      else if pr_owner accepter_resources \<noteq> accepter then Inl E_NOT_OWNER
      else if pr_owner proposer_resources \<noteq> proposer proposal then Inl E_NOT_OWNER
      else if \<not> wood proposer_resources \<ge> wood_offered proposal then Inl E_INSUFFICIENT_RESOURCES
      else if \<not> stone proposer_resources \<ge> stone_offered proposal then Inl E_INSUFFICIENT_RESOURCES
      else if \<not> emerald proposer_resources \<ge> emerald_offered proposal then Inl E_INSUFFICIENT_RESOURCES
      else if \<not> wood accepter_resources \<ge> wood_requested proposal then Inl E_INSUFFICIENT_RESOURCES
      else if \<not> stone accepter_resources \<ge> stone_requested proposal then Inl E_INSUFFICIENT_RESOURCES
      else if \<not> emerald accepter_resources \<ge> emerald_requested proposal then Inl E_INSUFFICIENT_RESOURCES
      else
        and_then (sub_u64 (wood proposer_resources) (wood_offered proposal)) (\<lambda>pw0.
        and_then (add_u64 pw0 (wood_requested proposal)) (\<lambda>pw.
        and_then (sub_u64 (stone proposer_resources) (stone_offered proposal)) (\<lambda>ps0.
        and_then (add_u64 ps0 (stone_requested proposal)) (\<lambda>ps.
        and_then (sub_u64 (emerald proposer_resources) (emerald_offered proposal)) (\<lambda>pe0.
        and_then (add_u64 pe0 (emerald_requested proposal)) (\<lambda>pe.
        and_then (add_u64 (wood accepter_resources) (wood_offered proposal)) (\<lambda>aw0.
        and_then (sub_u64 aw0 (wood_requested proposal)) (\<lambda>aw.
        and_then (add_u64 (stone accepter_resources) (stone_offered proposal)) (\<lambda>as0.
        and_then (sub_u64 as0 (stone_requested proposal)) (\<lambda>as.
        and_then (add_u64 (emerald accepter_resources) (emerald_offered proposal)) (\<lambda>ae0.
        and_then (sub_u64 ae0 (emerald_requested proposal)) (\<lambda>ae.
          Inr (proposer_resources\<lparr>wood := pw, stone := ps, emerald := pe\<rparr>,
               accepter_resources\<lparr>wood := aw, stone := as, emerald := ae\<rparr>))))))))))))))"

definition cancel_trade :: "TradeProposal \<Rightarrow> TxContext \<Rightarrow> abort_code + unit" where
  "cancel_trade proposal ctx =
     (let sender = tx_sender ctx in
      if \<not> (sender = proposer proposal \<or> sender = target proposal) then Inl E_NOT_OWNER
      else Inr ())"

text \<open>
  Transaction execution on the ledger (the platform's rule, not this module's): the
  objects named by the call are fetched from the store, two mutable references must name
  two objects, and the effects of the entry function are committed only when it returns.
  \<open>accept_trade\<close> and \<open>cancel_trade\<close> take the proposal by value and delete its id, so
  a committed call removes it from the store.
\<close>

record ledger =
  proposals :: "ID \<Rightarrow> TradeProposal option"
  resources :: "ID \<Rightarrow> PlayerResources option"

definition exec_accept_trade ::
  "ledger \<Rightarrow> ID \<Rightarrow> ID \<Rightarrow> ID \<Rightarrow> TxContext \<Rightarrow> abort_code option \<times> ledger"
where
  "exec_accept_trade L proposal_id proposer_res_id accepter_res_id ctx =
     (case (proposals L proposal_id, resources L proposer_res_id, resources L accepter_res_id) of
        (Some p, Some pr, Some ar) \<Rightarrow>
          if proposer_res_id = accepter_res_id then (Some INVALID_TRANSACTION, L)
          else (case accept_trade p pr ar ctx of
                  Inl e \<Rightarrow> (Some e, L)
                | Inr (pr', ar') \<Rightarrow>
                    (None, L\<lparr>proposals := (proposals L)(proposal_id := None),
                             resources := (resources L)(proposer_res_id := Some pr',
                                                        accepter_res_id := Some ar')\<rparr>))
      | _ \<Rightarrow> (Some INVALID_TRANSACTION, L))"

definition exec_cancel_trade :: "ledger \<Rightarrow> ID \<Rightarrow> TxContext \<Rightarrow> abort_code option \<times> ledger" where
  "exec_cancel_trade L proposal_id ctx =
     (case proposals L proposal_id of
        Some p \<Rightarrow>
          (case cancel_trade p ctx of
             Inl e \<Rightarrow> (Some e, L)
           | Inr _ \<Rightarrow> (None, L\<lparr>proposals := (proposals L)(proposal_id := None)\<rparr>))
      | None \<Rightarrow> (Some INVALID_TRANSACTION, L))"

section \<open>Runtime primitives of the server (JavaScript)\<close>

text \<open>
  Coordinates and distances are reals: they stand for the finite numbers of the runtime,
  computed without rounding error. The other number values of the runtime (\<open>NaN\<close>, the
  two infinities, the negative zero) are not values of the model, so nothing below speaks
  of a call that is handed one of them. Whole numbers (counters read from the ledger,
  lengths, rounded coordinates) are integers; where the runtime holds such a number as a
  double, \<open>toNumber\<close> gives the double it holds and \<open>Number_toString\<close> the text it prints.
  Strings are lists of 8-bit code units (the Latin-1 range of UTF-16).
\<close>

datatype js_error = EsError | RpcError

text \<open>
  An \<open>async\<close> function settles to a value (\<open>Inr\<close>) or rejects (\<open>Inl\<close>). \<open>await\<close>
  passes a rejection on; \<open>try\<close>/\<open>catch\<close> hands it to the handler; \<open>Promise.all\<close>
  rejects as soon as one of its promises does.
\<close>

definition await :: "js_error + 'a \<Rightarrow> ('a \<Rightarrow> js_error + 'b) \<Rightarrow> js_error + 'b" where
  "await promise continuation =
     (case promise of Inl e \<Rightarrow> Inl e | Inr v \<Rightarrow> continuation v)"

definition try_catch :: "js_error + 'a \<Rightarrow> (js_error \<Rightarrow> js_error + 'a) \<Rightarrow> js_error + 'a" where
  "try_catch body handler = (case body of Inl e \<Rightarrow> handler e | Inr v \<Rightarrow> Inr v)"

fun Promise_all :: "(js_error + 'a) list \<Rightarrow> js_error + 'a list" where
  "Promise_all [] = Inr []"
| "Promise_all (p # ps) =
     (case p of
        Inl e \<Rightarrow> Inl e
      | Inr v \<Rightarrow> (case Promise_all ps of Inl e \<Rightarrow> Inl e | Inr vs \<Rightarrow> Inr (v # vs)))"

definition nl :: string where
  "nl = [CHR 0x0A]"

fun join :: "string \<Rightarrow> string list \<Rightarrow> string" where
  "join sep [] = []"
| "join sep [s] = s"
| "join sep (s # t # ss) = s @ sep @ join sep (t # ss)"

text \<open>The decimal digits of a natural number.\<close>

fun decimal :: "nat \<Rightarrow> string" where
  "decimal n =
     (if n < 10 then [char_of (48 + n)] else decimal (n div 10) @ [char_of (48 + n mod 10)])"

declare decimal.simps [simp del]

fun bit_length :: "nat \<Rightarrow> nat" where
  "bit_length n = (if n = 0 then 0 else Suc (bit_length (n div 2)))"

declare bit_length.simps [simp del]

text \<open>
  The double nearest to a natural number, ties to the even significand (53 bits). It is
  what \<open>parseInt\<close> returns for the decimal text of a \<open>u64\<close>: a value below \<open>2^53\<close> is
  kept, a larger one is rounded.
\<close>

definition toNumber :: "nat \<Rightarrow> nat" where
  "toNumber n =
     (if n < 2 ^ 53 then n
      else
        let e = bit_length n - 53;
            q = n div 2 ^ e;
            r = n mod 2 ^ e;
            half = 2 ^ (e - 1)
        in if r < half \<or> (r = half \<and> even q) then q * 2 ^ e else (q + 1) * 2 ^ e)"

text \<open>
  \<open>Number::toString\<close> on a whole number. The digits are the shortest decimal numeral
  that reads back as the same double \<open>v\<close> (the nearest one to \<open>v\<close> when two of that length
  do, the even one on a tie), filled up with zeros; from 22 digits on the runtime prints
  the exponent form.
\<close>

definition shortest :: "nat \<Rightarrow> nat" where
  "shortest v =
     (let d = length (decimal v)
      in case find (\<lambda>k. toNumber (v div 10 ^ (d - k) * 10 ^ (d - k)) = v
                       \<or> toNumber ((v div 10 ^ (d - k) + 1) * 10 ^ (d - k)) = v) [1..<Suc d] of
           None \<Rightarrow> v
         | Some k \<Rightarrow>
             let p = 10 ^ (d - k);
                 lo = v div p * p;
                 hi = lo + p
             in if toNumber lo \<noteq> v then hi
                else if toNumber hi \<noteq> v then lo
                else if v - lo < hi - v then lo
                else if hi - v < v - lo then hi
                else if even (v div p) then lo else hi)"

definition Number_toString :: "int \<Rightarrow> string" where
  "Number_toString i =
     (if i = 0 then ''0''
      else
        let digits = decimal (shortest (toNumber (nat \<bar>i\<bar>)));
            n = length digits;
            s = rev (dropWhile (\<lambda>c. c = CHR ''0'') (rev digits));
            body = (if n \<le> 21 then digits
                    else (if length s = 1 then s else hd s # CHR ''.'' # tl s)
                         @ ''e+'' @ decimal (n - 1))
        in if i < 0 then CHR ''-'' # body else body)"

definition Math_round :: "real \<Rightarrow> int" where
  "Math_round v = \<lfloor>v + 1 / 2\<rfloor>"

text \<open>
  \<open>Math.atan2(y, x)\<close> on reals; at \<open>(0, 0)\<close> the runtime returns \<open>0\<close>. (For the negative
  zero and for \<open>NaN\<close>, which are not reals, the runtime answers differently: \<open>pi\<close> for
  \<open>Math.atan2(0, -0)\<close>, \<open>NaN\<close> for a \<open>NaN\<close> argument.)
\<close>

definition Math_atan2 :: "real \<Rightarrow> real \<Rightarrow> real" where
  "Math_atan2 b a =
     (if a > 0 then arctan (b / a)
      else if a < 0 \<and> b \<ge> 0 then arctan (b / a) + pi
      else if a < 0 then arctan (b / a) - pi
      else if b > 0 then pi / 2
      else if b < 0 then - (pi / 2)
      else 0)"

text \<open>
  \<open>toLowerCase\<close> on the code units below 256: the letters \<open>A\<close> to \<open>Z\<close> and the
  capital letters U+00C0 to U+00DE (all but the multiplication sign U+00D7) move up by 32.
\<close>

definition toLowerCase_char :: "char \<Rightarrow> char" where
  "toLowerCase_char c =
     (if (65 \<le> (of_char c :: nat) \<and> (of_char c :: nat) \<le> 90)
         \<or> (192 \<le> (of_char c :: nat) \<and> (of_char c :: nat) \<le> 222 \<and> (of_char c :: nat) \<noteq> 215)
      then char_of (of_char c + (32 :: nat)) else c)"

definition toLowerCase :: "string \<Rightarrow> string" where
  "toLowerCase s = map toLowerCase_char s"

definition startsWith :: "string \<Rightarrow> string \<Rightarrow> bool" where
  "startsWith s t = (take (length t) s = t)"

fun String_includes :: "string \<Rightarrow> string \<Rightarrow> bool" where
  "String_includes [] t = (t = [])"
| "String_includes (c # s) t = (startsWith (c # s) t \<or> String_includes s t)"

text \<open>Truthiness of an optional string: \<open>undefined\<close> and \<open>""\<close> are falsy.\<close>

definition truthy :: "string option \<Rightarrow> bool" where
  "truthy v = (case v of None \<Rightarrow> False | Some s \<Rightarrow> s \<noteq> [])"

text \<open>
  A JavaScript \<open>Map\<close> keeps its keys in insertion order; \<open>set\<close> on a key that is there
  replaces the value in place.
\<close>

fun Map_set :: "'k \<Rightarrow> 'v \<Rightarrow> ('k \<times> 'v) list \<Rightarrow> ('k \<times> 'v) list" where
  "Map_set k v [] = [(k, v)]"
| "Map_set k v ((k', v') # kvs) = (if k' = k then (k, v) # kvs else (k', v') # Map_set k v kvs)"

definition Map_values :: "('k \<times> 'v) list \<Rightarrow> 'v list" where
  "Map_values m = map snd m"

section \<open>The in-memory world (GameWorld.ts)\<close>

record Position =
  pos_x :: real
  pos_y :: real

record GameAgent =
  agent_id :: string
  lettaAgentId :: string
  agent_name :: string
  agent_position :: Position
  agent_description :: string
  createdAt :: nat
  suiAddress :: string
  suiPublicKey :: string
  suiPrivateKey :: string

record SpriteSheet =
  url :: string
  frameCount :: nat
  frameWidth :: nat
  frameHeight :: nat
  fps :: "nat option"
  loop :: "bool option"
  columns :: "nat option"

text \<open>\<open>Omit<WorldItem, "id">\<close> is the item without its id; \<open>WorldItem\<close> adds the id.\<close>

record ItemFields =
  item_name :: string
  item_position :: Position
  imageUrl :: "string option"
  spriteSheet :: "SpriteSheet option"
  item_size :: "nat option"
  interactive :: "bool option"
  item_description :: "string option"
  collectedBy :: "string option"
  collectedAt :: "nat option"

record WorldItem = ItemFields +
  item_id :: string

text \<open>
  The persistence mirror of the world: each write either resolves (\<open>True\<close>) or rejects
  (\<open>False\<close>). The world calls it after it has changed its own maps.
\<close>

record EsMirror =
  saveAgent :: "GameAgent \<Rightarrow> bool"
  saveItem :: "WorldItem \<Rightarrow> bool"
  es_updateAgentPosition :: "string \<Rightarrow> Position \<Rightarrow> bool"
  updateItemCollection :: "string \<Rightarrow> string \<Rightarrow> nat \<Rightarrow> bool"
  addItemToPlayerInventory :: "string \<Rightarrow> string \<Rightarrow> bool"

text \<open>
  The state of \<open>GameWorld\<close>: the two maps in insertion order, the dimensions (whole
  numbers: the server reads them with \<open>parseInt\<close>), and the persistence mirror. The
  tile map is left out; nothing below reads it.
\<close>

record GameWorld =
  agents :: "(string \<times> GameAgent) list"
  items :: "(string \<times> WorldItem) list"
  worldWidth :: int
  worldHeight :: int
  esService :: "EsMirror option"
  persistenceEnabled :: bool

text \<open>\<open>getRandomPosition\<close>: \<open>r1\<close> and \<open>r2\<close> are the two draws of \<open>Math.random()\<close>.\<close>

definition getRandomPosition :: "GameWorld \<Rightarrow> real \<Rightarrow> real \<Rightarrow> Position" where
  "getRandomPosition w r1 r2 =
     \<lparr> pos_x = of_int \<lfloor>r1 * of_int (worldWidth w)\<rfloor>,
       pos_y = of_int \<lfloor>r2 * of_int (worldHeight w)\<rfloor> \<rparr>"

text \<open>
  \<open>addAgent\<close>: \<open>uuid\<close> is the value of \<open>uuidv4()\<close>, \<open>now\<close> of \<open>new Date()\<close>. The result
  is what the promise settles to, with the world as the call leaves it.
\<close>

definition addAgent ::
  "GameWorld \<Rightarrow> string \<Rightarrow> nat \<Rightarrow> real \<Rightarrow> real \<Rightarrow> string \<Rightarrow> string \<Rightarrow> string \<Rightarrow> string \<Rightarrow> string \<Rightarrow> string
     \<Rightarrow> Position option \<Rightarrow> (js_error + GameAgent) \<times> GameWorld"
where
  "addAgent w uuid now r1 r2 lettaId name description address publicKey privateKey position =
     (let agentId = uuid;
          randomPosition = (case position of Some p \<Rightarrow> p | None \<Rightarrow> getRandomPosition w r1 r2);
          agent = \<lparr> agent_id = agentId, lettaAgentId = lettaId, agent_name = name,
            agent_position = randomPosition, agent_description = description,
            createdAt = now, suiAddress = address, suiPublicKey = publicKey,
            suiPrivateKey = privateKey \<rparr>;
          w' = w\<lparr>agents := Map_set agentId agent (agents w)\<rparr>
      in case esService w of
           Some es \<Rightarrow>
             if persistenceEnabled w \<and> \<not> saveAgent es agent then (Inl EsError, w')
             else (Inr agent, w')
         | None \<Rightarrow> (Inr agent, w'))"

definition getAgent :: "GameWorld \<Rightarrow> string \<Rightarrow> GameAgent option" where
  "getAgent w agentId = map_of (agents w) agentId"

text \<open>
  \<open>updateAgentPosition\<close> on a position with number coordinates: each is cut to the
  world with \<open>Math.max(0, Math.min(v, bound))\<close>. (A coordinate that is not a number
  makes \<open>Math.min\<close> answer \<open>NaN\<close>, which the runtime stores as it is; such a call is
  outside the model.)
\<close>

definition updateAgentPosition ::
  "GameWorld \<Rightarrow> string \<Rightarrow> Position \<Rightarrow> (js_error + GameAgent option) \<times> GameWorld"
where
  "updateAgentPosition w agentId position =
     (case map_of (agents w) agentId of
        None \<Rightarrow> (Inr None, w)
      | Some agent \<Rightarrow>
          let agent' = agent\<lparr>agent_position :=
                \<lparr> pos_x = max 0 (min (pos_x position) (of_int (worldWidth w))),
                  pos_y = max 0 (min (pos_y position) (of_int (worldHeight w))) \<rparr>\<rparr>;
              w' = w\<lparr>agents := Map_set agentId agent' (agents w)\<rparr>
          in (case esService w of
                Some es \<Rightarrow>
                  if persistenceEnabled w \<and> \<not> es_updateAgentPosition es agentId (agent_position agent')
                  then (Inl EsError, w')
                  else (Inr (Some agent'), w')
              | None \<Rightarrow> (Inr (Some agent'), w')))"

definition getAllAgents :: "GameWorld \<Rightarrow> GameAgent list" where
  "getAllAgents w = Map_values (agents w)"

definition getAgentsInRange :: "GameWorld \<Rightarrow> Position \<Rightarrow> real \<Rightarrow> GameAgent list" where
  "getAgentsInRange w position rng =
     filter (\<lambda>agent.
       let distance = sqrt ((pos_x (agent_position agent) - pos_x position)\<^sup>2
                          + (pos_y (agent_position agent) - pos_y position)\<^sup>2)
       in distance \<le> rng) (getAllAgents w)"

definition getAllItems :: "GameWorld \<Rightarrow> WorldItem list" where
  "getAllItems w = filter (\<lambda>item. \<not> truthy (collectedBy item)) (Map_values (items w))"

definition getItem :: "GameWorld \<Rightarrow> string \<Rightarrow> WorldItem option" where
  "getItem w itemId = map_of (items w) itemId"

definition addItem ::
  "GameWorld \<Rightarrow> string \<Rightarrow> ItemFields \<Rightarrow> (js_error + WorldItem) \<times> GameWorld"
where
  "addItem w uuid item =
     (let newItem = ItemFields.extend item (WorldItem.fields uuid);
          w' = w\<lparr>items := Map_set uuid newItem (items w)\<rparr>
      in case esService w of
           Some es \<Rightarrow>
             if persistenceEnabled w \<and> \<not> saveItem es newItem then (Inl EsError, w')
             else (Inr newItem, w')
         | None \<Rightarrow> (Inr newItem, w'))"

text \<open>
  \<open>collectItem\<close>: \<open>now\<close> is the value of \<open>new Date()\<close>. The item is changed in the
  map before the two writes to the mirror, so a rejected write leaves it collected.
\<close>

definition collectItem ::
  "GameWorld \<Rightarrow> string \<Rightarrow> string \<Rightarrow> nat \<Rightarrow> (js_error + WorldItem option) \<times> GameWorld"
where
  "collectItem w itemId playerId now =
     (case map_of (items w) itemId of
        None \<Rightarrow> (Inr None, w)
      | Some item \<Rightarrow>
          if truthy (collectedBy item) then (Inr None, w)
          else
            let item' = item\<lparr>collectedBy := Some playerId, collectedAt := Some now\<rparr>;
                w' = w\<lparr>items := Map_set itemId item' (items w)\<rparr>
            in (case esService w of
                  Some es \<Rightarrow>
                    if persistenceEnabled w
                       \<and> \<not> (updateItemCollection es itemId playerId now
                              \<and> addItemToPlayerInventory es playerId itemId)
                    then (Inl EsError, w')
                    else (Inr (Some item'), w')
                | None \<Rightarrow> (Inr (Some item'), w')))"

definition getItemsInRange :: "GameWorld \<Rightarrow> Position \<Rightarrow> real \<Rightarrow> WorldItem list" where
  "getItemsInRange w position rng =
     filter (\<lambda>item.
       let distance = sqrt ((pos_x (item_position item) - pos_x position)\<^sup>2
                          + (pos_y (item_position item) - pos_y position)\<^sup>2)
       in distance \<le> rng) (getAllItems w)"

text \<open>
  The route \<open>POST /world/items/:itemId/collect\<close> (routes/world.ts), the caller of
  \<open>collectItem\<close>: the status it answers with and the world it leaves. \<open>playerId\<close> is the
  field of the request body, which may be missing.
\<close>

definition collect_route :: "GameWorld \<Rightarrow> string \<Rightarrow> string option \<Rightarrow> nat \<Rightarrow> nat \<times> GameWorld" where
  "collect_route w itemId playerId now =
     (if \<not> truthy playerId then (400, w)
      else
        (case getItem w itemId of
           None \<Rightarrow> (404, w)
         | Some item \<Rightarrow>
             if interactive item \<noteq> Some True then (400, w)
             else if truthy (collectedBy item) then (400, w)
             else (200, snd (collectItem w itemId (the playerId) now))))"

section \<open>The ledger client of the server (SuiGameService.ts)\<close>

record GeneratorInfo =
  objectId :: string
  gameId :: string
  resourceType :: nat
  gi_x :: nat
  gi_y :: nat
  owner :: string
  level :: nat
  generationRate :: nat
  maxCap :: nat
  unclaimed :: nat
  lastClaimTime :: nat
  lastRecapturedBy :: string
  lastRecapturedFrom :: string

record PlayerResourcesInfo =
  pri_objectId :: string
  pri_gameId :: string
  pri_owner :: string
  pri_wood :: nat
  pri_stone :: nat
  pri_emerald :: nat

record TradeProposalInfo =
  tpi_objectId :: string
  tpi_gameId :: string
  tpi_proposer :: string
  tpi_target :: string
  woodOffered :: nat
  stoneOffered :: nat
  emeraldOffered :: nat
  woodRequested :: nat
  stoneRequested :: nat
  emeraldRequested :: nat

record GameMatchInfo =
  gmi_objectId :: string
  gmi_creator :: string
  gmi_participants :: "string list"

text \<open>
  What the RPC client returns. The \<open>fields\<close> of a Move object arrive as JSON, the
  counters as decimal text: the typed records below hold the numbers the ledger stores,
  and \<open>parseInt\<close> turns each into the double nearest to it (\<open>toNumber\<close>). A response
  entry may lack \<open>data\<close>, and its data may lack a content with \<open>fields\<close>. A call may
  throw.
\<close>

record GameMatchFields =
  f_creator :: string
  f_participants :: "string list"

record GeneratorFields =
  f_game_id :: string
  f_resource_type :: nat
  f_x :: nat
  f_y :: nat
  f_owner :: string
  f_level :: nat
  f_generation_rate :: nat
  f_max_cap :: nat
  f_unclaimed :: nat
  f_last_claim_time :: nat
  f_last_recaptured_by :: string
  f_last_recaptured_from :: string

record SuiObjectData =
  data_objectId :: string
  data_fields :: "GeneratorFields option"

record SuiClient =
  getObject :: "string \<Rightarrow> js_error + GameMatchFields option"
  getOwnedObjects :: "string \<Rightarrow> string \<Rightarrow> js_error + SuiObjectData option list"

record SuiGameService =
  suiClient :: SuiClient
  packageId :: string
  currentGameId :: "string option"

text \<open>The object literal pushed by \<open>getAllGenerators\<close> for one response entry.\<close>

definition toGeneratorInfo :: "string \<Rightarrow> GeneratorFields \<Rightarrow> GeneratorInfo" where
  "toGeneratorInfo oid flds =
     \<lparr> objectId = oid, gameId = f_game_id flds,
       resourceType = toNumber (f_resource_type flds),
       gi_x = toNumber (f_x flds), gi_y = toNumber (f_y flds),
       owner = f_owner flds, level = toNumber (f_level flds),
       generationRate = toNumber (f_generation_rate flds), maxCap = toNumber (f_max_cap flds),
       unclaimed = toNumber (f_unclaimed flds),
       lastClaimTime = toNumber (f_last_claim_time flds),
       lastRecapturedBy = f_last_recaptured_by flds,
       lastRecapturedFrom = f_last_recaptured_from flds \<rparr>"

text \<open>The inner loop of \<open>getAllGenerators\<close>: \<open>for (const obj of response.data)\<close>.\<close>

fun response_loop :: "string \<Rightarrow> SuiObjectData option list \<Rightarrow> GeneratorInfo list \<Rightarrow> GeneratorInfo list" where
  "response_loop game [] generators = generators"
| "response_loop game (obj # objs) generators =
     (case obj of
        None \<Rightarrow> response_loop game objs generators
      | Some d \<Rightarrow>
          (case data_fields d of
             None \<Rightarrow> response_loop game objs generators
           | Some flds \<Rightarrow>
               if f_game_id flds = game then
                 response_loop game objs (generators @ [toGeneratorInfo (data_objectId d) flds])
               else response_loop game objs generators))"

text \<open>
  The outer loop, \<open>for (const participant of participants)\<close>. A call that throws is
  caught by the \<open>try\<close> around the loops: the generators pushed so far are returned.
\<close>

fun participants_loop ::
  "SuiGameService \<Rightarrow> string \<Rightarrow> string list \<Rightarrow> GeneratorInfo list \<Rightarrow> GeneratorInfo list"
where
  "participants_loop svc game [] generators = generators"
| "participants_loop svc game (participant # rest) generators =
     (case getOwnedObjects (suiClient svc) participant
             (packageId svc @ ''::resource_game::Generator'') of
        Inl e \<Rightarrow> generators
      | Inr response \<Rightarrow> participants_loop svc game rest (response_loop game response generators))"

definition getAllGenerators :: "SuiGameService \<Rightarrow> string \<Rightarrow> GeneratorInfo list" where
  "getAllGenerators svc game =
     (case getObject (suiClient svc) game of
        Inl e \<Rightarrow> []
      | Inr None \<Rightarrow> []
      | Inr (Some gameFields) \<Rightarrow> participants_loop svc game (f_participants gameFields) [])"

definition getResourceName :: "nat \<Rightarrow> string" where
  "getResourceName rt =
     (if rt = 0 then ''Wood'' else if rt = 1 then ''Stone'' else if rt = 2 then ''Emerald''
      else ''Unknown'')"

text \<open>
  The body of the loop of \<open>syncGeneratorsToWorld\<close>: the item literal built for one
  generator, and \<open>Object.assign(existingItem, item)\<close>, which copies the seven
  properties the literal has (\<open>collectedBy\<close> also when it is \<open>undefined\<close>) and leaves
  the id, the image and the collection date of the existing item.
\<close>

definition generatorItem :: "GeneratorInfo \<Rightarrow> ItemFields" where
  "generatorItem gen =
     (let resourceName = getResourceName (resourceType gen);
          ownerName = (if owner gen = ''0x0'' then ''Unclaimed''
                       else ''Owner: '' @ take 8 (owner gen) @ ''...'')
      in \<lparr> item_name = resourceName @ '' Generator'',
           item_position = \<lparr> pos_x = real (gi_x gen), pos_y = real (gi_y gen) \<rparr>,
           imageUrl = None,
           spriteSheet = Some \<lparr> url = ''/assets/generator_'' @ toLowerCase resourceName @ ''.png'',
             frameCount = 8, frameWidth = 64, frameHeight = 64, fps = Some 8, loop = Some True,
             columns = None \<rparr>,
           item_size = Some 6,
           interactive = Some True,
           item_description = Some (''Level '' @ Number_toString (int (level gen)) @ '' ''
             @ resourceName @ '' Generator. '' @ ownerName @ ''. Rate: ''
             @ Number_toString (int (generationRate gen)) @ ''/min. Unclaimed: ''
             @ Number_toString (int (unclaimed gen)) @ ''/''
             @ Number_toString (int (maxCap gen))),
           collectedBy = (if owner gen \<noteq> ''0x0'' then Some (owner gen) else None),
           collectedAt = None \<rparr>)"

definition Object_assign :: "WorldItem \<Rightarrow> ItemFields \<Rightarrow> WorldItem" where
  "Object_assign existingItem item =
     existingItem\<lparr> item_name := item_name item, item_position := item_position item,
       spriteSheet := spriteSheet item, item_size := item_size item,
       interactive := interactive item, item_description := item_description item,
       collectedBy := collectedBy item \<rparr>"

text \<open>
  Where \<open>Object.assign\<close> writes: the first item of the map, in its order, that the
  lookup of \<open>syncGeneratorsToWorld\<close> finds.
\<close>

fun assign_first :: "('v \<Rightarrow> bool) \<Rightarrow> ('v \<Rightarrow> 'v) \<Rightarrow> ('k \<times> 'v) list \<Rightarrow> ('k \<times> 'v) list" where
  "assign_first P f [] = []"
| "assign_first P f ((k, v) # kvs) =
     (if P v then (k, f v) # kvs else (k, v) # assign_first P f kvs)"

text \<open>
  The loop of \<open>syncGeneratorsToWorld\<close> over the generators fetched. \<open>uuidv4\<close> is the
  stream of ids the uuid library hands out and \<open>n\<close> the number drawn so far. A rejected
  write of \<open>addItem\<close> ends the loop with the error.
\<close>

fun sync_loop ::
  "(nat \<Rightarrow> string) \<Rightarrow> nat \<Rightarrow> GameWorld \<Rightarrow> GeneratorInfo list \<Rightarrow> (js_error + unit) \<times> GameWorld \<times> nat"
where
  "sync_loop uuidv4 n w [] = (Inr (), w, n)"
| "sync_loop uuidv4 n w (gen # gens) =
     (let existingItem = find (\<lambda>item. item_id item = ''gen_'' @ objectId gen) (getAllItems w);
          item = generatorItem gen
      in case existingItem of
           Some existing \<Rightarrow>
             sync_loop uuidv4 n
               (w\<lparr>items := assign_first
                    (\<lambda>it. \<not> truthy (collectedBy it) \<and> item_id it = ''gen_'' @ objectId gen)
                    (\<lambda>it. Object_assign it item) (items w)\<rparr>)
               gens
         | None \<Rightarrow>
             (case addItem w (uuidv4 n) item of
                (Inl e, w') \<Rightarrow> (Inl e, w', Suc n)
              | (Inr added, w') \<Rightarrow> sync_loop uuidv4 (Suc n) w' gens))"

definition syncGeneratorsToWorld ::
  "SuiGameService \<Rightarrow> (nat \<Rightarrow> string) \<Rightarrow> nat \<Rightarrow> GameWorld \<Rightarrow> (js_error + unit) \<times> GameWorld \<times> nat"
where
  "syncGeneratorsToWorld svc uuidv4 n w =
     (case currentGameId svc of
        None \<Rightarrow> (Inr (), w, n)
      | Some game \<Rightarrow>
          if game = [] then (Inr (), w, n)
          else sync_loop uuidv4 n w (getAllGenerators svc game))"

definition hostileKeywords :: "string list" where
  "hostileKeywords =
     [''hostile'', ''enemy'', ''unfriendly'', ''attacked'', ''stole'', ''aggressive'', ''threat'']"

definition shouldRecaptureGenerator :: "GeneratorInfo \<Rightarrow> string \<Rightarrow> string \<Rightarrow> bool" where
  "shouldRecaptureGenerator generator agentAddress agentMemory =
     (if owner generator = agentAddress then False
      else if owner generator = ''0x0'' then False
      else
        let ownerMention = toLowerCase (owner generator);
            memoryLower = toLowerCase agentMemory
        in list_ex (\<lambda>keyword. String_includes memoryLower keyword
                      \<and> String_includes memoryLower (take 8 ownerMention))
             hostileKeywords)"

text \<open>
  The ledger as the RPC reads it (the ledger's own interface, outside the repository):
  every object has an id, a holder, a struct type and a content. \<open>getObject\<close> finds an
  object by id; \<open>getOwnedObjects\<close> lists the objects an address holds, filtered by
  struct type. Shared objects have no address holder. Either call may fail: the two
  predicates of \<open>rpc_client\<close> say for which object id and for which holder it throws.
\<close>

datatype holder = AddressOwner string | Shared | Immutable

datatype move_value = MatchValue GameMatchFields | GeneratorValue GeneratorFields | OtherValue

record chain_object =
  obj_id :: string
  obj_holder :: holder
  obj_type :: string
  obj_value :: move_value

definition rpc_getObject :: "chain_object list \<Rightarrow> string \<Rightarrow> js_error + GameMatchFields option" where
  "rpc_getObject chain oid =
     Inr (case find (\<lambda>ob. obj_id ob = oid) chain of
            Some ob \<Rightarrow> (case obj_value ob of MatchValue m \<Rightarrow> Some m | _ \<Rightarrow> None)
          | None \<Rightarrow> None)"

definition rpc_getOwnedObjects ::
  "chain_object list \<Rightarrow> string \<Rightarrow> string \<Rightarrow> js_error + SuiObjectData option list"
where
  "rpc_getOwnedObjects chain addr structType =
     Inr (map (\<lambda>ob. Some \<lparr> data_objectId = obj_id ob,
                            data_fields = (case obj_value ob of GeneratorValue g \<Rightarrow> Some g | _ \<Rightarrow> None) \<rparr>)
            (filter (\<lambda>ob. obj_holder ob = AddressOwner addr \<and> obj_type ob = structType) chain))"

definition rpc_client ::
  "chain_object list \<Rightarrow> (string \<Rightarrow> bool) \<Rightarrow> (string \<Rightarrow> bool) \<Rightarrow> SuiClient"
where
  "rpc_client chain object_fails owned_fails =
     \<lparr> getObject = (\<lambda>oid. if object_fails oid then Inl RpcError else rpc_getObject chain oid),
       getOwnedObjects = (\<lambda>addr structType.
         if owned_fails addr then Inl RpcError else rpc_getOwnedObjects chain addr structType) \<rparr>"

text \<open>
  The module makes a \<open>Generator\<close> in one place, the loop of \<open>create_generators\<close>, and
  hands it to \<open>transfer::share_object\<close> there; a shared object stays shared. So on the
  ledgers of this program every object of the generator struct type of the package is a
  shared object.
\<close>

definition generators_shared :: "string \<Rightarrow> chain_object list \<Rightarrow> bool" where
  "generators_shared pkg chain =
     list_all (\<lambda>ob. obj_type ob = pkg @ ''::resource_game::Generator'' \<longrightarrow> obj_holder ob = Shared)
       chain"

text \<open>
  How a ledger comes to hold its objects, as far as holders go. An object of another
  struct type may appear with any holder: the module shares a match and a trade proposal
  and transfers a resource record to its player, and other packages make objects of their
  own. Generators appear through \<open>create_generators\<close> only, one shared object for each
  generator it makes. A call may change an object (its content, and the holder of an
  object that is not a generator), and objects may be deleted.
\<close>

inductive module_ledger :: "string \<Rightarrow> chain_object list \<Rightarrow> bool" for pkg :: string where
  ledger_empty: "module_ledger pkg []"
| ledger_object:
    "module_ledger pkg chain \<Longrightarrow> obj_type ob \<noteq> pkg @ ''::resource_game::Generator''
       \<Longrightarrow> module_ledger pkg (chain @ [ob])"
| ledger_generators:
    "module_ledger pkg chain
       \<Longrightarrow> create_generators game rt x_coords y_coords clock ctx = Inr (gens, ctx')
       \<Longrightarrow> length obs = length gens
       \<Longrightarrow> list_all (\<lambda>ob. obj_type ob = pkg @ ''::resource_game::Generator''
                           \<and> obj_holder ob = Shared) obs
       \<Longrightarrow> module_ledger pkg (chain @ obs)"
| ledger_change:
    "module_ledger pkg chain \<Longrightarrow> i < length chain \<Longrightarrow> obj_id ob = obj_id (chain ! i)
       \<Longrightarrow> obj_type ob = obj_type (chain ! i)
       \<Longrightarrow> (obj_type ob = pkg @ ''::resource_game::Generator''
             \<longrightarrow> obj_holder ob = obj_holder (chain ! i))
       \<Longrightarrow> module_ledger pkg (chain[i := ob])"
| ledger_delete:
    "module_ledger pkg chain \<Longrightarrow> module_ledger pkg (filter keep chain)"

text \<open>
  The enumeration contract for one participant, read off the ledger: the objects the
  address holds, of the generator struct type, whose \<open>game_id\<close> is the match asked for.
\<close>

definition held_generators :: "chain_object list \<Rightarrow> string \<Rightarrow> string \<Rightarrow> string \<Rightarrow> GeneratorInfo list" where
  "held_generators chain pkg game p =
     concat (map (\<lambda>ob. case obj_value ob of
                          GeneratorValue g \<Rightarrow> if f_game_id g = game then [toGeneratorInfo (obj_id ob) g] else []
                        | _ \<Rightarrow> [])
               (filter (\<lambda>ob. obj_holder ob = AddressOwner p
                            \<and> obj_type ob = pkg @ ''::resource_game::Generator'') chain))"

section \<open>The context builder (WorldContextService.ts)\<close>

text \<open>
  The two optional collaborators, as the context builder calls them: the player
  directory (\<open>esService\<close>) and the ledger service (\<open>suiGameService\<close>), each given by
  what its methods answer. A call either returns or throws (\<open>Inl\<close>); the builder is
  given \<open>None\<close> for a collaborator that is not configured. \<open>allGenerators\<close> stands
  for the method \<open>getAllGenerators\<close> of the ledger service.
\<close>

record PlayerData =
  player_id :: string
  player_name :: "string option"
  player_position :: Position
  metadata_suiAddress :: "string option"

record ElasticsearchService =
  getAllPlayers :: "js_error + PlayerData list"

record LedgerService =
  getPlayerResources :: "string \<Rightarrow> js_error + PlayerResourcesInfo option"
  getCurrentGameId :: "string option"
  getGeneratorsNearPosition :: "string \<Rightarrow> Position \<Rightarrow> real \<Rightarrow> js_error + GeneratorInfo list"
  getTradeProposalsForAgent :: "string \<Rightarrow> js_error + TradeProposalInfo list"
  allGenerators :: "string \<Rightarrow> js_error + GeneratorInfo list"
  getGameMatch :: "string \<Rightarrow> js_error + GameMatchInfo option"

record AgentContext =
  selfInfo :: string
  nearbyAgents :: string
  nearbyItems :: string
  nearbyPlayers :: string
  nearbyGenerators :: string
  resourcesInfo :: string
  tradeProposals :: string
  worldInfo :: string
  fullContext :: string

definition calculateDistance :: "Position \<Rightarrow> Position \<Rightarrow> real" where
  "calculateDistance pos1 pos2 =
     sqrt ((pos_x pos2 - pos_x pos1)\<^sup>2 + (pos_y pos2 - pos_y pos1)\<^sup>2)"

definition getDirection :: "Position \<Rightarrow> Position \<Rightarrow> string" where
  "getDirection from to =
     (let dx = pos_x to - pos_x from;
          dy = pos_y to - pos_y from;
          angle = Math_atan2 dy dx * (180 / pi)
      in if angle \<ge> -22.5 \<and> angle < 22.5 then ''to the East''
         else if angle \<ge> 22.5 \<and> angle < 67.5 then ''to the Southeast''
         else if angle \<ge> 67.5 \<and> angle < 112.5 then ''to the South''
         else if angle \<ge> 112.5 \<and> angle < 157.5 then ''to the Southwest''
         else if angle \<ge> 157.5 \<or> angle < -157.5 then ''to the West''
         else if angle \<ge> -157.5 \<and> angle < -112.5 then ''to the Northwest''
         else if angle \<ge> -112.5 \<and> angle < -67.5 then ''to the North''
         else if angle \<ge> -67.5 \<and> angle < -22.5 then ''to the Northeast''
         else ''nearby'')"

text \<open>
  The builders. The \<open>async\<close> ones settle to their text or reject; each call of a
  collaborator sits inside a \<open>try\<close> whose \<open>catch\<close> returns the fallback text. An array
  of lines that the source extends with \<open>push\<close> is the list \<open>parts\<close>, extended with \<open>@\<close>.
\<close>

definition buildSelfInfo :: "LedgerService option \<Rightarrow> GameAgent \<Rightarrow> js_error + string" where
  "buildSelfInfo sui agent =
     (let parts =
            [''YOUR CURRENT STATUS:'',
             ''- Name: '' @ agent_name agent,
             ''- Description: '' @ agent_description agent,
             ''- Current Position: ('' @ Number_toString (Math_round (pos_x (agent_position agent)))
               @ '', '' @ Number_toString (Math_round (pos_y (agent_position agent))) @ '')'',
             ''- Your Sui Wallet Address: '' @ suiAddress agent]
      in await
           (case sui of
              None \<Rightarrow> Inr parts
            | Some svc \<Rightarrow>
                try_catch
                  (await (getPlayerResources svc (suiAddress agent)) (\<lambda>resources.
                     case resources of
                       Some res \<Rightarrow>
                         Inr (parts @ [''- Your Resources: '' @ Number_toString (int (pri_wood res))
                           @ '' Wood, '' @ Number_toString (int (pri_stone res)) @ '' Stone, ''
                           @ Number_toString (int (pri_emerald res)) @ '' Emerald''])
                     | None \<Rightarrow> Inr parts))
                  (\<lambda>error. Inr parts))
           (\<lambda>parts'. Inr (join nl (parts' @
              [''- You are currently in the game world. Remember to roleplay as your character.'']))))"

definition buildNearbyAgentsInfo :: "GameWorld \<Rightarrow> GameAgent \<Rightarrow> real \<Rightarrow> string" where
  "buildNearbyAgentsInfo w agent rng =
     (let nearby = filter (\<lambda>a. agent_id a \<noteq> agent_id agent)
                     (getAgentsInRange w (agent_position agent) rng)
      in if length nearby = 0 then ''NEARBY NPCs:'' @ nl @ ''- None within visible range''
         else
           let agentDescriptions = map (\<lambda>nearbyAgent.
                 let distance = calculateDistance (agent_position agent) (agent_position nearbyAgent);
                     direction = getDirection (agent_position agent) (agent_position nearbyAgent)
                 in ''- '' @ agent_name nearbyAgent @ '' ('' @ take 8 (suiAddress nearbyAgent)
                    @ ''...): '' @ agent_description nearbyAgent @ '' (''
                    @ Number_toString (Math_round distance) @ '' units '' @ direction @ '')'') nearby
           in join nl (''NEARBY NPCs:'' # agentDescriptions))"

definition buildNearbyItemsInfo :: "GameWorld \<Rightarrow> GameAgent \<Rightarrow> real \<Rightarrow> string" where
  "buildNearbyItemsInfo w agent rng =
     (let nearby = getItemsInRange w (agent_position agent) rng
      in if length nearby = 0 then ''NEARBY ITEMS:'' @ nl @ ''- None within visible range''
         else
           let itemDescriptions = map (\<lambda>item.
                 let distance = calculateDistance (agent_position agent) (item_position item);
                     direction = getDirection (agent_position agent) (item_position item);
                     interactiveTag = (if interactive item = Some True then '' [Interactive]'' else [])
                 in ''- '' @ item_name item @ interactiveTag @ '': ''
                    @ (if truthy (item_description item) then the (item_description item)
                       else ''No description'')
                    @ '' ('' @ Number_toString (Math_round distance) @ '' units '' @ direction @ '')'')
                 nearby
           in join nl (''NEARBY ITEMS:'' # itemDescriptions))"

definition buildNearbyPlayersInfo ::
  "ElasticsearchService option \<Rightarrow> LedgerService option \<Rightarrow> GameAgent \<Rightarrow> real \<Rightarrow> js_error + string"
where
  "buildNearbyPlayersInfo es sui agent rng =
     (case es of
        None \<Rightarrow> Inr (''NEARBY PLAYERS:'' @ nl @ ''- Player tracking not available'')
      | Some esvc \<Rightarrow>
          try_catch
            (await (getAllPlayers esvc) (\<lambda>allPlayers.
               let nearby = filter (\<lambda>player.
                     calculateDistance (agent_position agent) (player_position player) \<le> rng)
                     allPlayers
               in if length nearby = 0
                  then Inr (''NEARBY PLAYERS:'' @ nl @ ''- No players within visible range'')
                  else
                    await
                      (Promise_all (map (\<lambda>player.
                         let distance = calculateDistance (agent_position agent) (player_position player);
                             direction = getDirection (agent_position agent) (player_position player)
                         in await
                              (case sui of
                                 None \<Rightarrow> Inr []
                               | Some svc \<Rightarrow>
                                   if truthy (metadata_suiAddress player) then
                                     try_catch
                                       (await (getPlayerResources svc (the (metadata_suiAddress player)))
                                          (\<lambda>resources.
                                             case resources of
                                               Some res \<Rightarrow>
                                                 Inr ('' [Resources: ''
                                                   @ Number_toString (int (pri_wood res)) @ ''W, ''
                                                   @ Number_toString (int (pri_stone res)) @ ''S, ''
                                                   @ Number_toString (int (pri_emerald res)) @ ''E]'')
                                             | None \<Rightarrow> Inr []))
                                       (\<lambda>error. Inr [])
                                   else Inr [])
                              (\<lambda>resourceInfo.
                                 Inr (''- '' @ (if truthy (player_name player) then the (player_name player)
                                              else ''Adventurer'')
                                   @ resourceInfo @ '' ('' @ Number_toString (Math_round distance)
                                   @ '' units '' @ direction @ '')''))) nearby))
                      (\<lambda>playerDescriptions. Inr (join nl (''NEARBY PLAYERS:'' # playerDescriptions)))))
            (\<lambda>error. Inr (''NEARBY PLAYERS:'' @ nl @ ''- Error loading player information'')))"

definition buildNearbyGeneratorsInfo ::
  "LedgerService option \<Rightarrow> GameAgent \<Rightarrow> real \<Rightarrow> js_error + string"
where
  "buildNearbyGeneratorsInfo sui agent rng =
     (case sui of
        None \<Rightarrow> Inr (''NEARBY GENERATORS:'' @ nl @ ''- Generator tracking not available'')
      | Some svc \<Rightarrow>
          try_catch
            (if \<not> truthy (getCurrentGameId svc)
             then Inr (''NEARBY GENERATORS:'' @ nl @ ''- No active game'')
             else
               await (getGeneratorsNearPosition svc (the (getCurrentGameId svc)) (agent_position agent) rng)
                 (\<lambda>generators.
                    if length generators = 0
                    then Inr (''NEARBY GENERATORS:'' @ nl @ ''- None within visible range'')
                    else
                      let generatorDescriptions = map (\<lambda>gen.
                            let genPos = \<lparr> pos_x = real (gi_x gen), pos_y = real (gi_y gen) \<rparr>;
                                distance = calculateDistance (agent_position agent) genPos;
                                direction = getDirection (agent_position agent) genPos;
                                resourceName = getResourceName (resourceType gen);
                                ownerInfo =
                                  (if owner gen = ''0x0'' then ''[UNCLAIMED - You can claim this!]''
                                   else if owner gen = suiAddress agent then ''[OWNED BY YOU]''
                                   else ''[Owned by '' @ take 8 (owner gen) @ ''...]'');
                                statusInfo =
                                  (if owner gen \<noteq> ''0x0''
                                   then '' Level '' @ Number_toString (int (level gen)) @ '', Rate: ''
                                     @ Number_toString (int (generationRate gen)) @ ''/min, Unclaimed: ''
                                     @ Number_toString (int (unclaimed gen)) @ ''/''
                                     @ Number_toString (int (maxCap gen))
                                   else [])
                            in ''- '' @ resourceName @ '' Generator '' @ ownerInfo @ statusInfo
                               @ '' ('' @ Number_toString (Math_round distance) @ '' units ''
                               @ direction @ '')'')
                            generators
                      in Inr (join nl (''NEARBY GENERATORS:'' # generatorDescriptions @
                           [nl @ ''ACTIONS AVAILABLE:'',
                            ''- Claim unclaimed generators using /claim_generator'',
                            ''- Claim resources from your generators using /claim_resources'',
                            ''- Recapture enemy generators using /recapture_generator'']))))
            (\<lambda>error. Inr (''NEARBY GENERATORS:'' @ nl @ ''- Error loading generator information'')))"

definition buildResourcesInfo :: "LedgerService option \<Rightarrow> GameAgent \<Rightarrow> js_error + string" where
  "buildResourcesInfo sui agent =
     (case sui of
        None \<Rightarrow> Inr (''YOUR RESOURCES:'' @ nl @ ''- Resource tracking not available'')
      | Some svc \<Rightarrow>
          try_catch
            (await (getPlayerResources svc (suiAddress agent)) (\<lambda>resources.
               case resources of
                 None \<Rightarrow> Inr (''YOUR RESOURCES:'' @ nl @ ''- Not yet initialized (join a game first)'')
               | Some res \<Rightarrow>
                   Inr (join nl
                     [''YOUR RESOURCES:'',
                      ''- Wood: '' @ Number_toString (int (pri_wood res)),
                      ''- Stone: '' @ Number_toString (int (pri_stone res)),
                      ''- Emerald: '' @ Number_toString (int (pri_emerald res)),
                      ''- Resource Object ID: '' @ pri_objectId res])))
            (\<lambda>error. Inr (''YOUR RESOURCES:'' @ nl @ ''- Error loading resources'')))"

definition buildTradeProposalsInfo :: "LedgerService option \<Rightarrow> GameAgent \<Rightarrow> js_error + string" where
  "buildTradeProposalsInfo sui agent =
     (case sui of
        None \<Rightarrow> Inr (''TRADE PROPOSALS:'' @ nl @ ''- Trading not available'')
      | Some svc \<Rightarrow>
          try_catch
            (await (getTradeProposalsForAgent svc (suiAddress agent)) (\<lambda>props.
               if length props = 0
               then Inr (''TRADE PROPOSALS:'' @ nl @ ''- No pending trade proposals'')
               else
                 let proposalDescriptions = map (\<lambda>proposal.
                       let isProposer = (tpi_proposer proposal = suiAddress agent);
                           otherParty = (if isProposer then tpi_target proposal else tpi_proposer proposal);
                           role = (if isProposer then ''YOU PROPOSED'' else ''PROPOSED TO YOU'');
                           offering = Number_toString (int (woodOffered proposal)) @ ''W, ''
                             @ Number_toString (int (stoneOffered proposal)) @ ''S, ''
                             @ Number_toString (int (emeraldOffered proposal)) @ ''E'';
                           requesting = Number_toString (int (woodRequested proposal)) @ ''W, ''
                             @ Number_toString (int (stoneRequested proposal)) @ ''S, ''
                             @ Number_toString (int (emeraldRequested proposal)) @ ''E''
                       in ''- ['' @ role @ ''] Trade with '' @ take 8 otherParty @ ''...: Offering ''
                          @ offering @ '' for '' @ requesting @ '' (ID: ''
                          @ take 8 (tpi_objectId proposal) @ ''...)'') props
                 in Inr (join nl (''TRADE PROPOSALS:'' # proposalDescriptions @
                      [nl @ ''ACTIONS AVAILABLE:'',
                       ''- Propose trades using /propose_trade'',
                       ''- Accept incoming trades using /accept_trade'',
                       ''- Cancel your proposals using /cancel_trade'']))))
            (\<lambda>error. Inr (''TRADE PROPOSALS:'' @ nl @ ''- Error loading trade information'')))"

text \<open>
  In \<open>buildWorldInfo\<close> the \<open>try\<close> holds two calls with a \<open>push\<close> after each, and its
  \<open>catch\<close> is empty: when the second call throws, the line pushed after the first stays.
\<close>

definition buildWorldInfo :: "GameWorld \<Rightarrow> LedgerService option \<Rightarrow> js_error + string" where
  "buildWorldInfo w sui =
     (let allAgents = getAllAgents w;
          allItems = getAllItems w;
          parts =
            [''WORLD INFORMATION:'',
             ''- World Size: '' @ Number_toString (worldWidth w) @ ''x''
               @ Number_toString (worldHeight w) @ '' units'',
             ''- Total NPCs in world: '' @ Number_toString (int (length allAgents)),
             ''- Total items in world: '' @ Number_toString (int (length allItems))]
      in await
           (case sui of
              None \<Rightarrow> Inr parts
            | Some svc \<Rightarrow>
                if \<not> truthy (getCurrentGameId svc) then Inr parts
                else
                  (case allGenerators svc (the (getCurrentGameId svc)) of
                     Inl error \<Rightarrow> Inr parts
                   | Inr generators \<Rightarrow>
                       let parts1 = parts @
                             [''- Total generators in game: ''
                                @ Number_toString (int (length generators))]
                       in (case getGameMatch svc (the (getCurrentGameId svc)) of
                             Inl error \<Rightarrow> Inr parts1
                           | Inr gameInfo \<Rightarrow>
                               (case gameInfo of
                                  Some info \<Rightarrow>
                                    Inr (parts1 @ [''- Game participants: ''
                                      @ Number_toString (int (length (gmi_participants info)))
                                      @ '' players''])
                                | None \<Rightarrow> Inr parts1))))
           (\<lambda>parts'. Inr (join nl (parts' @
              [''- Remember: You can move around, interact with items, manage generators, trade resources, and converse with players and other NPCs'']))))"

definition generateAgentContext ::
  "GameWorld \<Rightarrow> ElasticsearchService option \<Rightarrow> LedgerService option \<Rightarrow> GameAgent \<Rightarrow> real
     \<Rightarrow> js_error + AgentContext"
where
  "generateAgentContext w es sui agent contextRange =
     await (buildSelfInfo sui agent) (\<lambda>self.
       let agentsNear = buildNearbyAgentsInfo w agent contextRange;
           itemsNear = buildNearbyItemsInfo w agent contextRange
       in await (buildNearbyPlayersInfo es sui agent contextRange) (\<lambda>playersNear.
            await (buildNearbyGeneratorsInfo sui agent contextRange) (\<lambda>generatorsNear.
              await (buildResourcesInfo sui agent) (\<lambda>res.
                await (buildTradeProposalsInfo sui agent) (\<lambda>trades.
                  await (buildWorldInfo w sui) (\<lambda>world.
                    let full = join (nl @ nl)
                          (filter (\<lambda>section. length section > 0)
                             [''=== CURRENT CONTEXT ==='', self, res, agentsNear, playersNear,
                              generatorsNear, itemsNear, trades, world, ''===================''])
                    in Inr \<lparr> selfInfo = self, nearbyAgents = agentsNear, nearbyItems = itemsNear,
                             nearbyPlayers = playersNear, nearbyGenerators = generatorsNear,
                             resourcesInfo = res, tradeProposals = trades, worldInfo = world,
                             fullContext = full \<rparr>))))))"

section \<open>Sample inputs\<close>

text \<open>
  Concrete ledgers, calls and worlds on which the theorems below are evaluated. On the
  chain, match \<open>1\<close> was created by address \<open>7\<close> for the participants \<open>7\<close> and \<open>8\<close>.
\<close>

definition ex_game :: GameMatch where
  "ex_game = \<lparr> gm_id = 1, creator = 7, participants = [7, 8] \<rparr>"

definition ex_ctx :: "address \<Rightarrow> TxContext" where
  "ex_ctx who = \<lparr> tx_sender = who, fresh_id = (\<lambda>n. 100 + of_nat n), ids_created = 0 \<rparr>"

definition ex_generator :: Generator where
  "ex_generator =
     \<lparr> gen_id = 100, gen_game_id = 1, resource_type = 0, gen_x = 3, gen_y = 4,
       gen_owner = 0, gen_level = 0, generation_rate = 10, max_cap = 1000,
       gen_unclaimed = 0, last_claim_time = 5000, last_recaptured_by = 0,
       last_recaptured_from = 0 \<rparr>"

definition ex_resources :: "address \<Rightarrow> PlayerResources" where
  "ex_resources who =
     \<lparr> pr_id = 50 + who, pr_game_id = 1, pr_owner = who, wood = 100, stone = 100, emerald = 50 \<rparr>"

text \<open>Address \<open>7\<close> offers 10 wood to address \<open>8\<close> for 5 emerald.\<close>

definition ex_proposal :: TradeProposal where
  "ex_proposal =
     \<lparr> tp_id = 9, tp_game_id = 1, proposer = 7, target = 8,
       wood_offered = 10, stone_offered = 0, emerald_offered = 0,
       wood_requested = 0, stone_requested = 0, emerald_requested = 5 \<rparr>"

text \<open>Address \<open>7\<close>, holding the largest \<open>u64\<close> of wood, asks address \<open>8\<close> for one more.\<close>

definition ex_greedy_proposal :: TradeProposal where
  "ex_greedy_proposal =
     \<lparr> tp_id = 10, tp_game_id = 1, proposer = 7, target = 8,
       wood_offered = 0, stone_offered = 0, emerald_offered = 0,
       wood_requested = 1, stone_requested = 0, emerald_requested = 0 \<rparr>"

definition ex_full_resources :: PlayerResources where
  "ex_full_resources = (ex_resources 7)\<lparr>wood := 18446744073709551615\<rparr>"

text \<open>
  What the RPC sees for package \<open>0xpkg\<close> after \<open>create_match\<close> and
  \<open>create_generators\<close>: match \<open>0xgame\<close> with the participants \<open>0xalice\<close> and
  \<open>0xbob\<close>, who each hold their resource record; two generators of the match, one
  unclaimed and one claimed by \<open>0xbob\<close> at level 2, and a generator of another match,
  all three shared objects.
\<close>

definition ex_generator_fields :: "string \<Rightarrow> string \<Rightarrow> nat \<Rightarrow> GeneratorFields" where
  "ex_generator_fields game who lvl =
     \<lparr> f_game_id = game, f_resource_type = 0, f_x = 10, f_y = 20, f_owner = who,
       f_level = lvl, f_generation_rate = 10, f_max_cap = 1000, f_unclaimed = 0,
       f_last_claim_time = 5000, f_last_recaptured_by = ''0x0'',
       f_last_recaptured_from = ''0x0'' \<rparr>"

definition ex_chain :: "chain_object list" where
  "ex_chain =
     [\<lparr> obj_id = ''0xgame'', obj_holder = Shared, obj_type = ''0xpkg::resource_game::GameMatch'',
        obj_value = MatchValue \<lparr> f_creator = ''0xalice'', f_participants = [''0xalice'', ''0xbob''] \<rparr> \<rparr>,
      \<lparr> obj_id = ''0xr1'', obj_holder = AddressOwner ''0xalice'',
        obj_type = ''0xpkg::resource_game::PlayerResources'', obj_value = OtherValue \<rparr>,
      \<lparr> obj_id = ''0xr2'', obj_holder = AddressOwner ''0xbob'',
        obj_type = ''0xpkg::resource_game::PlayerResources'', obj_value = OtherValue \<rparr>,
      \<lparr> obj_id = ''0xg1'', obj_holder = Shared, obj_type = ''0xpkg::resource_game::Generator'',
        obj_value = GeneratorValue (ex_generator_fields ''0xgame'' ''0x0'' 0) \<rparr>,
      \<lparr> obj_id = ''0xg2'', obj_holder = Shared, obj_type = ''0xpkg::resource_game::Generator'',
        obj_value = GeneratorValue (ex_generator_fields ''0xgame'' ''0xbob'' 2) \<rparr>,
      \<lparr> obj_id = ''0xg3'', obj_holder = Shared, obj_type = ''0xpkg::resource_game::Generator'',
        obj_value = GeneratorValue (ex_generator_fields ''0xother'' ''0x0'' 0) \<rparr>]"

text \<open>
  The ledger service on that ledger: \<open>ex_service\<close> with an RPC that answers every call,
  \<open>ex_flaky_service\<close> with one whose \<open>getOwnedObjects\<close> throws for \<open>0xbob\<close>.
\<close>

definition ex_service :: "string \<Rightarrow> SuiGameService" where
  "ex_service game =
     \<lparr> suiClient = rpc_client ex_chain (\<lambda>oid. False) (\<lambda>addr. False), packageId = ''0xpkg'',
       currentGameId = Some game \<rparr>"

definition ex_flaky_service :: "string \<Rightarrow> SuiGameService" where
  "ex_flaky_service game =
     \<lparr> suiClient = rpc_client ex_chain (\<lambda>oid. False) (\<lambda>addr. addr = ''0xbob''),
       packageId = ''0xpkg'', currentGameId = Some game \<rparr>"

definition ex_uuidv4 :: "nat \<Rightarrow> string" where
  "ex_uuidv4 n = ''uuid-'' @ decimal n"

definition ex_item :: "string option \<Rightarrow> WorldItem" where
  "ex_item collector =
     \<lparr> item_name = ''Treasure Chest'', item_position = \<lparr> pos_x = 30, pos_y = 30 \<rparr>,
       imageUrl = Some ''/assets/chest.png'', spriteSheet = None, item_size = Some 5,
       interactive = Some True, item_description = Some ''A mysterious treasure chest...'',
       collectedBy = collector, collectedAt = None, item_id = ''item-1'' \<rparr>"

definition ex_world :: "string option \<Rightarrow> GameWorld" where
  "ex_world collector =
     \<lparr> agents = [], items = [(''item-1'', ex_item collector)], worldWidth = 100, worldHeight = 100,
       esService = None, persistenceEnabled = False \<rparr>"

definition ex_agent :: GameAgent where
  "ex_agent =
     \<lparr> agent_id = ''agent-1'', lettaAgentId = ''letta-1'', agent_name = ''Bob'',
       agent_position = \<lparr> pos_x = 50, pos_y = 50 \<rparr>, agent_description = ''a trader'',
       createdAt = 0, suiAddress = ''0xb0b'', suiPublicKey = ''pk'', suiPrivateKey = ''sk'' \<rparr>"

text \<open>Two collaborators that are configured but down: every call of theirs throws.\<close>

definition ex_players_down :: ElasticsearchService where
  "ex_players_down = \<lparr> getAllPlayers = Inl EsError \<rparr>"

definition ex_ledger_down :: LedgerService where
  "ex_ledger_down =
     \<lparr> getPlayerResources = (\<lambda>address. Inl RpcError),
       getCurrentGameId = Some ''0xgame'',
       getGeneratorsNearPosition = (\<lambda>game position rng. Inl RpcError),
       getTradeProposalsForAgent = (\<lambda>address. Inl RpcError),
       allGenerators = (\<lambda>game. Inl RpcError),
       getGameMatch = (\<lambda>game. Inl RpcError) \<rparr>"

section \<open>Properties of the on-chain module\<close>

subsection \<open>Generators never carry an accrued amount between calls\<close>

lemma and_then_Inr_iff:
  "and_then r k = Inr v \<longleftrightarrow> (\<exists>a. r = Inr a \<and> k a = Inr v)"
  by (cases r) (simp_all add: and_then_def)

lemma create_generators_loop_fresh:
  "create_generators_loop game_id rt t xs ys ctx = Inr (gs, ctx') \<Longrightarrow> g \<in> set gs
     \<Longrightarrow> gen_unclaimed g = 0 \<and> gen_owner g = 0 \<and> max_cap g = BASE_CAP"
proof (induction game_id rt t xs ys ctx arbitrary: gs ctx' rule: create_generators_loop.induct)
  case (1 game_id rt current_time ys ctx)
  then show ?case by simp
next
  case (2 game_id rt current_time x xs ctx)
  then show ?case by simp
next
  case (3 game_id rt current_time x xs y ys ctx)
  then show ?case
    by (auto simp: Let_def and_then_Inr_iff split: prod.splits)
qed

lemma reachable_unclaimed_zero: "reachable g \<Longrightarrow> gen_unclaimed g = 0"
proof (induction rule: reachable.induct)
  case (created game rt x_coords y_coords clock ctx gs ctx' g)
  then show ?case
    by (auto simp: create_generators_def Let_def split: if_splits dest: create_generators_loop_fresh)
next
  case (claimed g game clock ctx g')
  then show ?case
    by (auto simp: claim_generator_def Let_def split: if_splits)
next
  case (resources_claimed g player_resources clock ctx g' pr')
  then show ?case
    by (auto simp: claim_resources_def Let_def and_then_Inr_iff split: if_splits)
next
  case (recaptured g game attacker_resources clock ctx g' ar')
  then show ?case
    by (auto simp: recapture_generator_def Let_def and_then_Inr_iff split: if_splits)
qed

text \<open>
  \<open>upgrade_generator\<close>, the fifth entry function that takes a generator, changes its
  level, rate and cap only.
\<close>

lemma upgrade_generator_keeps_unclaimed:
  "upgrade_generator g player_resources ctx = Inr (g', pr')
     \<Longrightarrow> gen_unclaimed g' = gen_unclaimed g \<and> gen_owner g' = gen_owner g"
  by (auto simp: upgrade_generator_def Let_def and_then_Inr_iff split: if_splits)

text \<open>
  Claim C6. Every generator state reachable through \<open>create_generators\<close>,
  \<open>claim_generator\<close>, \<open>claim_resources\<close> and \<open>recapture_generator\<close> has
  \<open>unclaimed \<le> max_cap\<close>, and an unowned generator (\<open>owner = 0x0\<close>) has
  \<open>unclaimed = 0\<close>. The stored field is in fact \<open>0\<close> in every reachable state: the
  accrued amount is computed from the clock when a claim or a recapture settles it.
\<close>

theorem generator_invariant:
  "reachable g \<Longrightarrow> gen_unclaimed g \<le> max_cap g \<and> (gen_owner g = 0 \<longrightarrow> gen_unclaimed g = 0)"
  by (simp add: reachable_unclaimed_zero)

theorem generator_invariant_witness:
  "reachable ex_generator \<and> gen_owner ex_generator = 0
   \<and> gen_unclaimed ex_generator \<le> max_cap ex_generator \<and> gen_unclaimed ex_generator = 0
   \<and> reachable (ex_generator\<lparr>gen_owner := 7, last_claim_time := 126000\<rparr>)
   \<and> gen_unclaimed (ex_generator\<lparr>gen_owner := 7, last_claim_time := 126000\<rparr>)
       \<le> max_cap (ex_generator\<lparr>gen_owner := 7, last_claim_time := 126000\<rparr>)"
proof -
  have c: "create_generators ex_game 0 [3] [4] 5000 (ex_ctx 7)
             = Inr ([ex_generator], (ex_ctx 7)\<lparr>ids_created := 1\<rparr>)"
    by (simp add: create_generators_def ex_game_def ex_ctx_def ex_generator_def object_new_def
        and_then_def BASE_GENERATION_def BASE_CAP_def)
  have r0: "reachable ex_generator"
    by (rule reachable.created [OF c]) simp
  have c1: "claim_generator ex_game ex_generator 6000 (ex_ctx 7)
              = Inr (ex_generator\<lparr>gen_owner := 7, last_claim_time := 6000\<rparr>)"
    by (simp add: claim_generator_def ex_game_def ex_ctx_def ex_generator_def)
  have r1: "reachable (ex_generator\<lparr>gen_owner := 7, last_claim_time := 6000\<rparr>)"
    by (rule reachable.claimed [OF r0 c1])
  have c2: "claim_resources (ex_generator\<lparr>gen_owner := 7, last_claim_time := 6000\<rparr>)
              (ex_resources 7) 126000 (ex_ctx 7)
      = Inr (ex_generator\<lparr>gen_owner := 7, last_claim_time := 126000\<rparr>, (ex_resources 7)\<lparr>wood := 120\<rparr>)"
    by (simp add: claim_resources_def ex_ctx_def ex_generator_def ex_resources_def and_then_def
        sub_u64_def mul_u64_def add_u64_def GENERATION_INTERVAL_MS_def WOOD_def)
  have r2: "reachable (ex_generator\<lparr>gen_owner := 7, last_claim_time := 126000\<rparr>)"
    by (rule reachable.resources_claimed [OF r1 c2])
  show ?thesis
    using r0 r2 generator_invariant [OF r0] generator_invariant [OF r2]
    by (simp add: ex_generator_def)
qed

subsection \<open>Accepting a trade\<close>

lemma sub_u64_Inr: "b \<le> a \<Longrightarrow> sub_u64 a b = Inr (a - b)"
  by (simp add: sub_u64_def)

lemma add_u64_Inr: "unat a + unat b < 2 ^ 64 \<Longrightarrow> add_u64 a b = Inr (a + b)"
  by (simp add: add_u64_def)

lemma add_u64_Inl: "\<not> unat a + unat b < 2 ^ 64 \<Longrightarrow> add_u64 a b = Inl ARITHMETIC_ERROR"
  by (simp add: add_u64_def)

lemma unat_add_u64: "unat (a :: u64) + unat b < 2 ^ 64 \<Longrightarrow> unat (a + b) = unat a + unat b"
  using unat_add_lem [of a b] by simp

lemma unat_sub_u64: "(b :: u64) \<le> a \<Longrightarrow> unat (a - b) = unat a - unat b"
  by (rule unat_sub)

lemma give_then_take:
  fixes p off req :: u64
  assumes "off \<le> p" and "unat p - unat off + unat req < 2 ^ 64"
  shows "and_then (sub_u64 p off) (\<lambda>v. and_then (add_u64 v req) k) = k (p - off + req)"
    and "unat (p - off + req) = unat p - unat off + unat req"
  using assms by (simp_all add: and_then_def sub_u64_Inr add_u64_Inr unat_sub_u64 unat_add_u64)

lemma give_then_take_overflow:
  fixes p off req :: u64
  assumes "off \<le> p" and "\<not> unat p - unat off + unat req < 2 ^ 64"
  shows "and_then (sub_u64 p off) (\<lambda>v. and_then (add_u64 v req) k) = Inl ARITHMETIC_ERROR"
  using assms by (simp add: and_then_def sub_u64_Inr add_u64_Inl unat_sub_u64)

lemma take_then_give:
  fixes a off req :: u64
  assumes "req \<le> a" and "unat a + unat off < 2 ^ 64"
  shows "and_then (add_u64 a off) (\<lambda>v. and_then (sub_u64 v req) k) = k (a + off - req)"
    and "unat (a + off - req) = unat a + unat off - unat req"
proof -
  have le: "req \<le> a + off"
    using assms by (simp add: word_le_nat_alt unat_add_u64)
  show "and_then (add_u64 a off) (\<lambda>v. and_then (sub_u64 v req) k) = k (a + off - req)"
    using assms le by (simp add: and_then_def sub_u64_Inr add_u64_Inr)
  show "unat (a + off - req) = unat a + unat off - unat req"
    using assms le by (simp add: unat_sub_u64 unat_add_u64)
qed

lemma take_then_give_overflow:
  fixes a off req :: u64
  assumes "\<not> unat a + unat off < 2 ^ 64"
  shows "and_then (add_u64 a off) (\<lambda>v. and_then (sub_u64 v req) k) = Inl ARITHMETIC_ERROR"
  using assms by (simp add: and_then_def add_u64_Inl)

lemma accept_trade_success:
  assumes "tx_sender ctx = target p" "pr_owner ar = tx_sender ctx" "pr_owner pr = proposer p"
    and "wood_offered p \<le> wood pr" "stone_offered p \<le> stone pr" "emerald_offered p \<le> emerald pr"
    and "wood_requested p \<le> wood ar" "stone_requested p \<le> stone ar" "emerald_requested p \<le> emerald ar"
    and "unat (wood pr) - unat (wood_offered p) + unat (wood_requested p) < 2 ^ 64"
        "unat (stone pr) - unat (stone_offered p) + unat (stone_requested p) < 2 ^ 64"
        "unat (emerald pr) - unat (emerald_offered p) + unat (emerald_requested p) < 2 ^ 64"
    and "unat (wood ar) + unat (wood_offered p) < 2 ^ 64"
        "unat (stone ar) + unat (stone_offered p) < 2 ^ 64"
        "unat (emerald ar) + unat (emerald_offered p) < 2 ^ 64"
  shows "accept_trade p pr ar ctx =
    Inr (pr\<lparr>wood := wood pr - wood_offered p + wood_requested p,
            stone := stone pr - stone_offered p + stone_requested p,
            emerald := emerald pr - emerald_offered p + emerald_requested p\<rparr>,
         ar\<lparr>wood := wood ar + wood_offered p - wood_requested p,
            stone := stone ar + stone_offered p - stone_requested p,
            emerald := emerald ar + emerald_offered p - emerald_requested p\<rparr>)"
  using assms by (simp add: accept_trade_def Let_def give_then_take(1) take_then_give(1))

lemma accept_trade_overflow:
  assumes "tx_sender ctx = target p" "pr_owner ar = tx_sender ctx" "pr_owner pr = proposer p"
    and "wood_offered p \<le> wood pr" "stone_offered p \<le> stone pr" "emerald_offered p \<le> emerald pr"
    and "wood_requested p \<le> wood ar" "stone_requested p \<le> stone ar" "emerald_requested p \<le> emerald ar"
    and "\<not> (unat (wood pr) - unat (wood_offered p) + unat (wood_requested p) < 2 ^ 64
      \<and> unat (stone pr) - unat (stone_offered p) + unat (stone_requested p) < 2 ^ 64
      \<and> unat (emerald pr) - unat (emerald_offered p) + unat (emerald_requested p) < 2 ^ 64
      \<and> unat (wood ar) + unat (wood_offered p) < 2 ^ 64
      \<and> unat (stone ar) + unat (stone_offered p) < 2 ^ 64
      \<and> unat (emerald ar) + unat (emerald_offered p) < 2 ^ 64)"
  shows "accept_trade p pr ar ctx = Inl ARITHMETIC_ERROR"
proof -
  let ?pw = "unat (wood pr) - unat (wood_offered p) + unat (wood_requested p) < 2 ^ 64"
  let ?ps = "unat (stone pr) - unat (stone_offered p) + unat (stone_requested p) < 2 ^ 64"
  let ?pe = "unat (emerald pr) - unat (emerald_offered p) + unat (emerald_requested p) < 2 ^ 64"
  let ?aw = "unat (wood ar) + unat (wood_offered p) < 2 ^ 64"
  let ?as = "unat (stone ar) + unat (stone_offered p) < 2 ^ 64"
  let ?ae = "unat (emerald ar) + unat (emerald_offered p) < 2 ^ 64"
  consider "\<not> ?pw" | "?pw" "\<not> ?ps" | "?pw" "?ps" "\<not> ?pe" | "?pw" "?ps" "?pe" "\<not> ?aw"
    | "?pw" "?ps" "?pe" "?aw" "\<not> ?as" | "?pw" "?ps" "?pe" "?aw" "?as" "\<not> ?ae"
    using assms(10) by blast
  then show ?thesis
  proof cases
    case 1
    then show ?thesis using assms(1-9)
      by (simp add: accept_trade_def Let_def give_then_take_overflow)
  next
    case 2
    then show ?thesis using assms(1-9)
      by (simp add: accept_trade_def Let_def give_then_take(1) give_then_take_overflow)
  next
    case 3
    then show ?thesis using assms(1-9)
      by (simp add: accept_trade_def Let_def give_then_take(1) give_then_take_overflow)
  next
    case 4
    then show ?thesis using assms(1-9)
      by (simp add: accept_trade_def Let_def give_then_take(1) take_then_give_overflow)
  next
    case 5
    then show ?thesis using assms(1-9)
      by (simp add: accept_trade_def Let_def give_then_take(1) take_then_give(1) take_then_give_overflow)
  next
    case 6
    then show ?thesis using assms(1-9)
      by (simp add: accept_trade_def Let_def give_then_take(1) take_then_give(1) take_then_give_overflow)
  qed
qed

lemma accept_trade_abort:
  assumes "\<not> (tx_sender ctx = target p \<and> pr_owner ar = tx_sender ctx \<and> pr_owner pr = proposer p
     \<and> wood_offered p \<le> wood pr \<and> stone_offered p \<le> stone pr \<and> emerald_offered p \<le> emerald pr
     \<and> wood_requested p \<le> wood ar \<and> stone_requested p \<le> stone ar \<and> emerald_requested p \<le> emerald ar)"
  shows "accept_trade p pr ar ctx = Inl E_NOT_OWNER \<or> accept_trade p pr ar ctx = Inl E_INSUFFICIENT_RESOURCES"
  using assms by (auto simp add: accept_trade_def Let_def)

lemma exec_accept_trade_abort_unchanged:
  "exec_accept_trade L pid prid arid ctx = (Some e, L') \<Longrightarrow> L' = L"
  by (auto simp: exec_accept_trade_def split: option.splits if_splits sum.splits prod.splits)

lemma exec_accept_trade_commit:
  "exec_accept_trade L pid prid arid ctx = (None, L') \<Longrightarrow>
     \<exists>p pr ar pr' ar'. proposals L pid = Some p \<and> resources L prid = Some pr \<and> resources L arid = Some ar
       \<and> prid \<noteq> arid \<and> accept_trade p pr ar ctx = Inr (pr', ar')
       \<and> proposals L' = (proposals L)(pid := None)
       \<and> resources L' = (resources L)(prid := Some pr', arid := Some ar')"
  by (auto simp: exec_accept_trade_def split: option.splits if_splits sum.splits prod.splits)

text \<open>
  Claim C7, as amended. When the preconditions of \<open>accept_trade\<close> hold and the six
  intermediate sums fit in 64 bits (proposer balance minus offer plus request, and
  accepter balance plus offer, for each resource), the call returns with the offered
  triple moved from proposer to accepter and the requested triple moved back, so the
  two-party sum of each resource is unchanged, and the committed transaction removes the
  proposal from the ledger. In every other case the call aborts, and an aborted
  transaction leaves the ledger as it was.
\<close>

theorem accept_trade_atomic:
  fixes p :: TradeProposal and pr ar :: PlayerResources and ctx :: TxContext and L :: ledger
  defines "pre \<equiv> tx_sender ctx = target p \<and> pr_owner ar = tx_sender ctx \<and> pr_owner pr = proposer p
     \<and> wood_offered p \<le> wood pr \<and> stone_offered p \<le> stone pr \<and> emerald_offered p \<le> emerald pr
     \<and> wood_requested p \<le> wood ar \<and> stone_requested p \<le> stone ar \<and> emerald_requested p \<le> emerald ar"
  defines "fits \<equiv> unat (wood pr) - unat (wood_offered p) + unat (wood_requested p) < 2 ^ 64
      \<and> unat (stone pr) - unat (stone_offered p) + unat (stone_requested p) < 2 ^ 64
      \<and> unat (emerald pr) - unat (emerald_offered p) + unat (emerald_requested p) < 2 ^ 64
      \<and> unat (wood ar) + unat (wood_offered p) < 2 ^ 64
      \<and> unat (stone ar) + unat (stone_offered p) < 2 ^ 64
      \<and> unat (emerald ar) + unat (emerald_offered p) < 2 ^ 64"
  defines "pr' \<equiv> pr\<lparr>wood := wood pr - wood_offered p + wood_requested p,
            stone := stone pr - stone_offered p + stone_requested p,
            emerald := emerald pr - emerald_offered p + emerald_requested p\<rparr>"
  defines "ar' \<equiv> ar\<lparr>wood := wood ar + wood_offered p - wood_requested p,
            stone := stone ar + stone_offered p - stone_requested p,
            emerald := emerald ar + emerald_offered p - emerald_requested p\<rparr>"
  shows "(pre \<and> fits \<longrightarrow>
            accept_trade p pr ar ctx = Inr (pr', ar')
          \<and> unat (wood pr') = unat (wood pr) - unat (wood_offered p) + unat (wood_requested p)
          \<and> unat (stone pr') = unat (stone pr) - unat (stone_offered p) + unat (stone_requested p)
          \<and> unat (emerald pr') = unat (emerald pr) - unat (emerald_offered p) + unat (emerald_requested p)
          \<and> unat (wood ar') = unat (wood ar) + unat (wood_offered p) - unat (wood_requested p)
          \<and> unat (stone ar') = unat (stone ar) + unat (stone_offered p) - unat (stone_requested p)
          \<and> unat (emerald ar') = unat (emerald ar) + unat (emerald_offered p) - unat (emerald_requested p)
          \<and> unat (wood pr') + unat (wood ar') = unat (wood pr) + unat (wood ar)
          \<and> unat (stone pr') + unat (stone ar') = unat (stone pr) + unat (stone ar)
          \<and> unat (emerald pr') + unat (emerald ar') = unat (emerald pr) + unat (emerald ar)
          \<and> (proposals L pid = Some p \<and> resources L prid = Some pr \<and> resources L arid = Some ar
               \<and> prid \<noteq> arid \<longrightarrow>
             exec_accept_trade L pid prid arid ctx =
               (None, L\<lparr>proposals := (proposals L)(pid := None),
                        resources := (resources L)(prid := Some pr', arid := Some ar')\<rparr>)))
       \<and> (\<not> (pre \<and> fits) \<longrightarrow>
            (\<exists>e. accept_trade p pr ar ctx = Inl e)
          \<and> (proposals L pid = Some p \<and> resources L prid = Some pr \<and> resources L arid = Some ar
               \<longrightarrow> (\<exists>e. exec_accept_trade L pid prid arid ctx = (Some e, L))))
       \<and> (\<forall>e L'. exec_accept_trade L pid prid arid ctx = (Some e, L') \<longrightarrow> L' = L)"
proof (intro conjI impI allI)
  assume pf: "pre \<and> fits"
  then have ok: "accept_trade p pr ar ctx = Inr (pr', ar')"
    unfolding pre_def fits_def pr'_def ar'_def by (intro accept_trade_success) simp_all
  show "accept_trade p pr ar ctx = Inr (pr', ar')" by (rule ok)
  have pw: "unat (wood pr') = unat (wood pr) - unat (wood_offered p) + unat (wood_requested p)"
    using pf by (simp add: pre_def fits_def pr'_def give_then_take(2))
  have ps: "unat (stone pr') = unat (stone pr) - unat (stone_offered p) + unat (stone_requested p)"
    using pf by (simp add: pre_def fits_def pr'_def give_then_take(2))
  have pe: "unat (emerald pr') = unat (emerald pr) - unat (emerald_offered p) + unat (emerald_requested p)"
    using pf by (simp add: pre_def fits_def pr'_def give_then_take(2))
  have aw: "unat (wood ar') = unat (wood ar) + unat (wood_offered p) - unat (wood_requested p)"
    using pf by (simp add: pre_def fits_def ar'_def take_then_give(2))
  have as: "unat (stone ar') = unat (stone ar) + unat (stone_offered p) - unat (stone_requested p)"
    using pf by (simp add: pre_def fits_def ar'_def take_then_give(2))
  have ae: "unat (emerald ar') = unat (emerald ar) + unat (emerald_offered p) - unat (emerald_requested p)"
    using pf by (simp add: pre_def fits_def ar'_def take_then_give(2))
  have le: "unat (wood_offered p) \<le> unat (wood pr)" "unat (stone_offered p) \<le> unat (stone pr)"
    "unat (emerald_offered p) \<le> unat (emerald pr)" "unat (wood_requested p) \<le> unat (wood ar)"
    "unat (stone_requested p) \<le> unat (stone ar)" "unat (emerald_requested p) \<le> unat (emerald ar)"
    using pf by (simp_all add: pre_def word_le_nat_alt)
  show "unat (wood pr') = unat (wood pr) - unat (wood_offered p) + unat (wood_requested p)"
    by (rule pw)
  show "unat (stone pr') = unat (stone pr) - unat (stone_offered p) + unat (stone_requested p)"
    by (rule ps)
  show "unat (emerald pr') = unat (emerald pr) - unat (emerald_offered p) + unat (emerald_requested p)"
    by (rule pe)
  show "unat (wood ar') = unat (wood ar) + unat (wood_offered p) - unat (wood_requested p)"
    by (rule aw)
  show "unat (stone ar') = unat (stone ar) + unat (stone_offered p) - unat (stone_requested p)"
    by (rule as)
  show "unat (emerald ar') = unat (emerald ar) + unat (emerald_offered p) - unat (emerald_requested p)"
    by (rule ae)
  show "unat (wood pr') + unat (wood ar') = unat (wood pr) + unat (wood ar)"
    using pw aw le by linarith
  show "unat (stone pr') + unat (stone ar') = unat (stone pr) + unat (stone ar)"
    using ps as le by linarith
  show "unat (emerald pr') + unat (emerald ar') = unat (emerald pr) + unat (emerald ar)"
    using pe ae le by linarith
  show "exec_accept_trade L pid prid arid ctx =
      (None, L\<lparr>proposals := (proposals L)(pid := None),
               resources := (resources L)(prid := Some pr', arid := Some ar')\<rparr>)"
    if "proposals L pid = Some p \<and> resources L prid = Some pr \<and> resources L arid = Some ar \<and> prid \<noteq> arid"
    using that ok by (simp add: exec_accept_trade_def)
next
  assume npf: "\<not> (pre \<and> fits)"
  show ab: "\<exists>e. accept_trade p pr ar ctx = Inl e"
  proof (cases pre)
    case True
    then have "\<not> fits" using npf by simp
    then have "accept_trade p pr ar ctx = Inl ARITHMETIC_ERROR"
      using True unfolding pre_def fits_def by (intro accept_trade_overflow) simp_all
    then show ?thesis by blast
  next
    case False
    then show ?thesis using accept_trade_abort [of ctx p ar pr] unfolding pre_def by blast
  qed
  show "\<exists>e. exec_accept_trade L pid prid arid ctx = (Some e, L)"
    if "proposals L pid = Some p \<and> resources L prid = Some pr \<and> resources L arid = Some ar"
    using that ab by (auto simp: exec_accept_trade_def)
next
  fix e L'
  assume "exec_accept_trade L pid prid arid ctx = (Some e, L')"
  then show "L' = L" by (rule exec_accept_trade_abort_unchanged)
qed

theorem accept_trade_atomic_witness:
  "accept_trade ex_proposal (ex_resources 7) (ex_resources 8) (ex_ctx 8) =
     Inr ((ex_resources 7)\<lparr>wood := 90, stone := 100, emerald := 55\<rparr>,
          (ex_resources 8)\<lparr>wood := 110, stone := 100, emerald := 45\<rparr>)
   \<and> (\<exists>e. accept_trade ex_proposal (ex_resources 7) (ex_resources 8) (ex_ctx 9) = Inl e)"
  using accept_trade_atomic [where p = ex_proposal and pr = "ex_resources 7"
      and ar = "ex_resources 8" and ctx = "ex_ctx 8"]
    accept_trade_atomic [where p = ex_proposal and pr = "ex_resources 7"
      and ar = "ex_resources 8" and ctx = "ex_ctx 9"]
  by (simp add: ex_proposal_def ex_resources_def ex_ctx_def)

text \<open>
  Claim C7 as stated fails: all preconditions hold, yet the call aborts, because the
  proposer's balance plus the requested amount does not fit in a \<open>u64\<close>.
\<close>

theorem accept_trade_overflow_counterexample:
  "tx_sender (ex_ctx 8) = target ex_greedy_proposal
   \<and> pr_owner (ex_resources 8) = tx_sender (ex_ctx 8)
   \<and> pr_owner ex_full_resources = proposer ex_greedy_proposal
   \<and> wood_offered ex_greedy_proposal \<le> wood ex_full_resources
   \<and> stone_offered ex_greedy_proposal \<le> stone ex_full_resources
   \<and> emerald_offered ex_greedy_proposal \<le> emerald ex_full_resources
   \<and> wood_requested ex_greedy_proposal \<le> wood (ex_resources 8)
   \<and> stone_requested ex_greedy_proposal \<le> stone (ex_resources 8)
   \<and> emerald_requested ex_greedy_proposal \<le> emerald (ex_resources 8)
   \<and> accept_trade ex_greedy_proposal ex_full_resources (ex_resources 8) (ex_ctx 8)
       = Inl ARITHMETIC_ERROR"
  by (simp add: accept_trade_def and_then_def sub_u64_def add_u64_def ex_greedy_proposal_def
      ex_full_resources_def ex_resources_def ex_ctx_def)

section \<open>Properties of the server\<close>

subsection \<open>Evaluating the sample inputs\<close>

lemma decimal_samples:
  "decimal 0 = ''0''" "decimal (Suc 0) = ''1''" "decimal 1 = ''1''" "decimal 2 = ''2''"
  "decimal 3 = ''3''" "decimal 10 = ''10''" "decimal 50 = ''50''" "decimal 100 = ''100''"
  "decimal 1000 = ''1000''"
  by code_simp+

lemma Number_toString_samples:
  "Number_toString 0 = ''0''" "Number_toString 1 = ''1''" "Number_toString 2 = ''2''"
  "Number_toString 10 = ''10''" "Number_toString 50 = ''50''" "Number_toString 100 = ''100''"
  "Number_toString 1000 = ''1000''"
  by (simp_all add: Number_toString_def shortest_def toNumber_def decimal_samples Let_def)

lemma toNumber_small: "n < 2 ^ 53 \<Longrightarrow> toNumber n = n"
  by (simp add: toNumber_def)

lemma toLowerCase_samples:
  "toLowerCase ''Wood'' = ''wood''" "toLowerCase ''Stone'' = ''stone''"
  "toLowerCase ''Emerald'' = ''emerald''" "toLowerCase ''Unknown'' = ''unknown''"
  by code_simp+

lemma ex_world_empty_views:
  "getAllItems (ex_world (Some ''player-1'')) = []"
  "getItemsInRange (ex_world (Some ''player-1'')) p rng = []"
  "getAllAgents (ex_world c) = []"
  "getAgentsInRange (ex_world c) p rng = []"
  "worldWidth (ex_world c) = 100" "worldHeight (ex_world c) = 100"
  by (simp_all add: getItemsInRange_def getAllItems_def getAgentsInRange_def getAllAgents_def
      Map_values_def ex_world_def ex_item_def truthy_def)

lemma Math_round_50: "Math_round 50 = 50"
  by (simp add: Math_round_def)

subsection \<open>Direction between equal positions\<close>

text \<open>
  Claim C2. For equal positions the claim expects the fallback label \<open>nearby\<close>. The
  code computes the angle \<open>0\<close> and answers \<open>to the East\<close>.
\<close>

theorem getDirection_same_position: "getDirection p p = ''to the East''"
  by (simp add: getDirection_def Math_atan2_def Let_def)

subsection \<open>The recapture heuristic\<close>

lemma startsWith_iff: "startsWith s t \<longleftrightarrow> (\<exists>v. s = t @ v)"
  unfolding startsWith_def
  by (metis append_eq_conv_conj append_take_drop_id)

lemma String_includes_iff: "String_includes s t \<longleftrightarrow> (\<exists>u v. s = u @ t @ v)"
proof (induction s)
  case Nil
  then show ?case by auto
next
  case (Cons c s)
  show ?case
  proof
    assume "String_includes (c # s) t"
    then consider "startsWith (c # s) t" | "String_includes s t" by auto
    then show "\<exists>u v. c # s = u @ t @ v"
    proof cases
      case 1
      then obtain v where "c # s = t @ v" by (auto simp: startsWith_iff)
      then have "c # s = [] @ t @ v" by simp
      then show ?thesis by blast
    next
      case 2
      then obtain u v where "s = u @ t @ v" using Cons.IH by auto
      then have "c # s = (c # u) @ t @ v" by simp
      then show ?thesis by blast
    qed
  next
    assume "\<exists>u v. c # s = u @ t @ v"
    then obtain u v where uv: "c # s = u @ t @ v" by auto
    show "String_includes (c # s) t"
    proof (cases u)
      case Nil
      then have "startsWith (c # s) t" using uv by (simp add: startsWith_iff)
      then show ?thesis by simp
    next
      case (Cons a u')
      then have "s = u' @ t @ v" using uv by simp
      then show ?thesis using Cons.IH by auto
    qed
  qed
qed

text \<open>
  Claim C3. \<open>shouldRecaptureGenerator\<close> is false when the acting address owns the
  generator and when the owner is \<open>0x0\<close>; otherwise it is true exactly when the
  lower-cased memory contains one of the hostility keywords and contains the first eight
  characters of the lower-cased owner address.
\<close>

theorem shouldRecapture_spec:
  "shouldRecaptureGenerator g a m =
     (owner g \<noteq> a \<and> owner g \<noteq> ''0x0''
      \<and> (\<exists>k \<in> set hostileKeywords. \<exists>u v. toLowerCase m = u @ k @ v)
      \<and> (\<exists>u v. toLowerCase m = u @ take 8 (toLowerCase (owner g)) @ v))"
  by (auto simp: shouldRecaptureGenerator_def Let_def list_ex_iff String_includes_iff)

theorem shouldRecapture_spec_witness:
  "(let g = \<lparr> objectId = ''0xg1'', gameId = ''0xgame'', resourceType = 0, gi_x = 10, gi_y = 20,
              owner = ''0xABCD1234ffff'', level = 0, generationRate = 10, maxCap = 1000,
              unclaimed = 0, lastClaimTime = 0, lastRecapturedBy = ''0x0'',
              lastRecapturedFrom = ''0x0'' \<rparr>
    in shouldRecaptureGenerator g ''0xme'' ''Agent 0xabcd1234 ATTACKED my mine''
     \<and> \<not> shouldRecaptureGenerator g ''0xme'' ''they attacked my mine''
     \<and> \<not> shouldRecaptureGenerator g ''0xme'' ''I met 0xabcd1234 today''
     \<and> \<not> shouldRecaptureGenerator g ''0xABCD1234ffff'' ''Agent 0xabcd1234 ATTACKED my mine''
     \<and> \<not> shouldRecaptureGenerator (g\<lparr>owner := ''0x0''\<rparr>) ''0xme'' ''0x0 attacked me'')"
proof -
  define g where "g = \<lparr> objectId = ''0xg1'', gameId = ''0xgame'', resourceType = 0, gi_x = 10, gi_y = 20,
              owner = ''0xABCD1234ffff'', level = 0, generationRate = 10, maxCap = 1000,
              unclaimed = 0, lastClaimTime = 0, lastRecapturedBy = ''0x0'',
              lastRecapturedFrom = ''0x0'' \<rparr>"
  have low: "toLowerCase ''Agent 0xabcd1234 ATTACKED my mine'' = ''agent 0xabcd1234 attacked my mine''"
    "toLowerCase ''they attacked my mine'' = ''they attacked my mine''"
    "toLowerCase ''I met 0xabcd1234 today'' = ''i met 0xabcd1234 today''"
    "take 8 (toLowerCase ''0xABCD1234ffff'') = ''0xabcd12''"
    by code_simp+
  have inst: "shouldRecaptureGenerator h a m =
     (owner h \<noteq> a \<and> owner h \<noteq> ''0x0''
      \<and> (\<exists>k \<in> set hostileKeywords. String_includes (toLowerCase m) k)
      \<and> String_includes (toLowerCase m) (take 8 (toLowerCase (owner h))))" for h a m
    unfolding String_includes_iff by (rule shouldRecapture_spec)
  note ev = g_def hostileKeywords_def low startsWith_def
  have 1: "shouldRecaptureGenerator g ''0xme'' ''Agent 0xabcd1234 ATTACKED my mine''"
    by (simp add: inst ev)
  have 2: "\<not> shouldRecaptureGenerator g ''0xme'' ''they attacked my mine''"
    by (simp add: inst ev)
  have 3: "\<not> shouldRecaptureGenerator g ''0xme'' ''I met 0xabcd1234 today''"
    by (simp add: inst ev)
  have 4: "\<not> shouldRecaptureGenerator g ''0xABCD1234ffff'' ''Agent 0xabcd1234 ATTACKED my mine''"
    by (simp add: inst g_def)
  have 5: "\<not> shouldRecaptureGenerator (g\<lparr>owner := ''0x0''\<rparr>) ''0xme'' ''0x0 attacked me''"
    by (simp add: inst g_def)
  show ?thesis using 1 2 3 4 5 by (simp add: g_def)
qed

subsection \<open>Agent positions and the world bounds\<close>

lemma map_of_Map_set: "map_of (Map_set k v m) k = Some v"
  by (induction m) auto

lemma addAgent_stores_position:
  "getAgent (snd (addAgent w uuid now r1 r2 lid nm ds ad pk sk (Some p))) uuid
     = Some \<lparr> agent_id = uuid, lettaAgentId = lid, agent_name = nm, agent_position = p,
              agent_description = ds, createdAt = now, suiAddress = ad, suiPublicKey = pk,
              suiPrivateKey = sk \<rparr>"
  by (simp add: addAgent_def getAgent_def Let_def map_of_Map_set split: option.splits)

text \<open>
  A position drawn by \<open>getRandomPosition\<close> lies in the world, provided the world's
  width and height are not negative.
\<close>

lemma getRandomPosition_in_bounds:
  assumes "0 \<le> r1" "r1 < 1" "0 \<le> r2" "r2 < 1" "0 \<le> worldWidth w" "0 \<le> worldHeight w"
  shows "0 \<le> pos_x (getRandomPosition w r1 r2) \<and> pos_x (getRandomPosition w r1 r2) \<le> of_int (worldWidth w)
       \<and> 0 \<le> pos_y (getRandomPosition w r1 r2) \<and> pos_y (getRandomPosition w r1 r2) \<le> of_int (worldHeight w)"
proof -
  have a: "0 \<le> r * of_int n \<and> r * of_int n \<le> of_int n" if "0 \<le> r" "r < 1" "0 \<le> n" for r :: real and n :: int
    using that by (simp add: mult_left_le_one_le)
  have b: "0 \<le> (of_int \<lfloor>v\<rfloor> :: real) \<and> (of_int \<lfloor>v\<rfloor> :: real) \<le> of_int n" if "0 \<le> v" "v \<le> of_int n" for v :: real and n :: int
    using that by (metis floor_mono floor_of_int of_int_0_le_iff of_int_le_iff zero_le_floor)
  show ?thesis
    using a [of r1 "worldWidth w"] a [of r2 "worldHeight w"] b assms
    by (simp add: getRandomPosition_def)
qed

text \<open>
  Claim C9. The claim expects every stored agent position to lie within the world, also
  after \<open>addAgent\<close> with a position supplied by the caller. \<open>addAgent\<close> stores that
  position as it is given: in the 100 by 100 world, the position \<open>(500, -20)\<close> is stored
  unchanged.
\<close>

theorem addAgent_out_of_bounds:
  "getAgent (snd (addAgent (ex_world None) ''agent-1'' 0 0 0 ''letta-1'' ''Bob'' ''a trader''
                    ''0xb0b'' ''pk'' ''sk'' (Some \<lparr> pos_x = 500, pos_y = -20 \<rparr>))) ''agent-1''
     = Some (ex_agent\<lparr>agent_position := \<lparr> pos_x = 500, pos_y = -20 \<rparr>\<rparr>)
   \<and> worldWidth (ex_world None) = 100
   \<and> \<not> (500 :: real) \<le> of_int (worldWidth (ex_world None))
   \<and> \<not> (0 :: real) \<le> -20"
  by (simp add: addAgent_stores_position ex_agent_def ex_world_def)

subsection \<open>Which generators the enumeration finds\<close>

lemma response_loop_append:
  "response_loop game objs acc =
     acc @ concat (map (\<lambda>obj. case obj of
                          None \<Rightarrow> []
                        | Some d \<Rightarrow> (case data_fields d of
                                       None \<Rightarrow> []
                                     | Some flds \<Rightarrow> if f_game_id flds = game
                                         then [toGeneratorInfo (data_objectId d) flds] else [])) objs)"
  by (induction objs arbitrary: acc) (auto split: option.splits)

lemma response_loop_rpc:
  "rpc_getOwnedObjects chain p (pkg @ ''::resource_game::Generator'') = Inr response
     \<Longrightarrow> response_loop game response acc = acc @ held_generators chain pkg game p"
  unfolding response_loop_append held_generators_def rpc_getOwnedObjects_def
  by (auto simp: map_concat comp_def split: move_value.splits intro!: arg_cong [where f = concat])

text \<open>
  The outer loop against the ledger: it gathers what each participant holds, in the order
  of the list, up to the first participant for whom the RPC throws.
\<close>

lemma participants_loop_rpc:
  "participants_loop
     \<lparr> suiClient = rpc_client chain object_fails owned_fails, packageId = pkg, currentGameId = cur \<rparr>
     game ps acc
     = acc @ concat (map (held_generators chain pkg game) (takeWhile (\<lambda>p. \<not> owned_fails p) ps))"
proof (induction ps arbitrary: acc)
  case Nil
  then show ?case by simp
next
  case (Cons p ps)
  show ?case
  proof (cases "owned_fails p")
    case True
    then show ?thesis by (simp add: rpc_client_def)
  next
    case False
    then have "getOwnedObjects (rpc_client chain object_fails owned_fails) p
                 (pkg @ ''::resource_game::Generator'')
          = rpc_getOwnedObjects chain p (pkg @ ''::resource_game::Generator'')"
      by (simp add: rpc_client_def)
    moreover obtain response
      where r: "rpc_getOwnedObjects chain p (pkg @ ''::resource_game::Generator'') = Inr response"
      by (simp add: rpc_getOwnedObjects_def)
    ultimately show ?thesis
      using Cons.IH response_loop_rpc [OF r, of game acc] False by simp
  qed
qed

lemma getAllGenerators_rpc:
  "getAllGenerators
     \<lparr> suiClient = rpc_client chain object_fails owned_fails, packageId = pkg, currentGameId = cur \<rparr>
     game
     = (if object_fails game then []
        else concat (map (held_generators chain pkg game)
               (takeWhile (\<lambda>p. \<not> owned_fails p)
                  (case rpc_getObject chain game of Inr (Some m) \<Rightarrow> f_participants m | _ \<Rightarrow> []))))"
proof (cases "object_fails game")
  case True
  then show ?thesis by (simp add: getAllGenerators_def rpc_client_def)
next
  case False
  then have g: "getObject (rpc_client chain object_fails owned_fails) game = rpc_getObject chain game"
    by (simp add: rpc_client_def)
  show ?thesis
    unfolding getAllGenerators_def
    using False by (simp add: g participants_loop_rpc split: sum.splits option.splits)
qed

lemma held_generators_holder:
  "gi \<in> set (held_generators chain pkg game p) \<Longrightarrow>
     \<exists>ob \<in> set chain. obj_id ob = objectId gi \<and> obj_holder ob = AddressOwner p
        \<and> obj_type ob = pkg @ ''::resource_game::Generator''
        \<and> (\<exists>g. obj_value ob = GeneratorValue g \<and> f_game_id g = game)"
proof -
  assume "gi \<in> set (held_generators chain pkg game p)"
  then obtain ob g where ob: "ob \<in> set chain" "obj_holder ob = AddressOwner p"
      "obj_type ob = pkg @ ''::resource_game::Generator''" "obj_value ob = GeneratorValue g"
      "f_game_id g = game" "gi = toGeneratorInfo (obj_id ob) g"
    unfolding held_generators_def
    by (auto split: move_value.splits if_splits) (metis (no_types))
  then have "obj_id ob = objectId gi" by (simp add: toGeneratorInfo_def)
  then show ?thesis using ob by blast
qed

lemma distinct_ids_same_object:
  "distinct (map obj_id chain) \<Longrightarrow> a \<in> set chain \<Longrightarrow> b \<in> set chain \<Longrightarrow> obj_id a = obj_id b \<Longrightarrow> a = b"
  by (meson distinct_map inj_onD)

text \<open>
  Every ledger that comes about as \<open>module_ledger\<close> describes holds its generators as
  shared objects; the sample ledger is one of them.
\<close>

lemma module_ledger_shared: "module_ledger pkg chain \<Longrightarrow> generators_shared pkg chain"
proof (induction rule: module_ledger.induct)
  case ledger_empty
  then show ?case by (simp add: generators_shared_def)
next
  case (ledger_object chain ob)
  then show ?case by (simp add: generators_shared_def)
next
  case (ledger_generators chain game rt x_coords y_coords clock ctx gens ctx' obs)
  then show ?case by (auto simp: generators_shared_def list_all_iff)
next
  case (ledger_change chain i ob)
  have "set (chain[i := ob]) \<subseteq> insert ob (set chain)"
    by (rule set_update_subset_insert)
  moreover have "chain ! i \<in> set chain"
    using ledger_change.hyps(2) by simp
  ultimately show ?case
    using ledger_change.IH ledger_change.hyps(4,5)
    by (auto simp: generators_shared_def list_all_iff)
next
  case (ledger_delete chain keep)
  then show ?case by (simp add: generators_shared_def list_all_iff)
qed

lemma ex_chain_module_ledger: "module_ledger ''0xpkg'' ex_chain"
proof -
  let ?match = "\<lparr> obj_id = ''0xgame'', obj_holder = Shared,
        obj_type = ''0xpkg::resource_game::GameMatch'',
        obj_value = MatchValue \<lparr> f_creator = ''0xalice'', f_participants = [''0xalice'', ''0xbob''] \<rparr> \<rparr>"
  let ?r1 = "\<lparr> obj_id = ''0xr1'', obj_holder = AddressOwner ''0xalice'',
        obj_type = ''0xpkg::resource_game::PlayerResources'', obj_value = OtherValue \<rparr>"
  let ?r2 = "\<lparr> obj_id = ''0xr2'', obj_holder = AddressOwner ''0xbob'',
        obj_type = ''0xpkg::resource_game::PlayerResources'', obj_value = OtherValue \<rparr>"
  let ?gs = "[\<lparr> obj_id = ''0xg1'', obj_holder = Shared, obj_type = ''0xpkg::resource_game::Generator'',
        obj_value = GeneratorValue (ex_generator_fields ''0xgame'' ''0x0'' 0) \<rparr>,
      \<lparr> obj_id = ''0xg2'', obj_holder = Shared, obj_type = ''0xpkg::resource_game::Generator'',
        obj_value = GeneratorValue (ex_generator_fields ''0xgame'' ''0xbob'' 2) \<rparr>,
      \<lparr> obj_id = ''0xg3'', obj_holder = Shared, obj_type = ''0xpkg::resource_game::Generator'',
        obj_value = GeneratorValue (ex_generator_fields ''0xother'' ''0x0'' 0) \<rparr>]"
  obtain gens ctx' where c: "create_generators ex_game 0 [10, 10, 10] [20, 20, 20] 5000 (ex_ctx 7)
      = Inr (gens, ctx')" and l: "length gens = 3"
    by (simp add: create_generators_def ex_game_def ex_ctx_def object_new_def and_then_def Let_def)
  have 1: "module_ledger ''0xpkg'' ([] @ [?match])"
    by (rule ledger_object [OF ledger_empty]) simp
  have 2: "module_ledger ''0xpkg'' (([] @ [?match]) @ [?r1])"
    by (rule ledger_object [OF 1]) simp
  have 3: "module_ledger ''0xpkg'' ((([] @ [?match]) @ [?r1]) @ [?r2])"
    by (rule ledger_object [OF 2]) simp
  have 4: "module_ledger ''0xpkg'' (((([] @ [?match]) @ [?r1]) @ [?r2]) @ ?gs)"
    by (rule ledger_generators [OF 3 c]) (simp_all add: l)
  show ?thesis
    using 4 by (simp add: ex_chain_def)
qed

text \<open>
  On a ledger whose generators are shared objects no address holds a generator, so the
  enumeration finds none, whichever calls of the RPC fail.
\<close>

lemma held_generators_shared:
  "generators_shared pkg chain \<Longrightarrow> held_generators chain pkg game p = []"
  unfolding held_generators_def generators_shared_def list_all_iff
  by (auto simp: filter_empty_conv)

lemma concat_held_generators_shared:
  "generators_shared pkg chain \<Longrightarrow> concat (map (held_generators chain pkg game) ps) = []"
  by (simp add: held_generators_shared)

lemma getAllGenerators_shared:
  "generators_shared pkg chain \<Longrightarrow>
     getAllGenerators
       \<lparr> suiClient = rpc_client chain object_fails owned_fails, packageId = pkg, currentGameId = cur \<rparr>
       game = []"
  by (simp add: getAllGenerators_rpc held_generators_shared)

lemma sync_shared:
  "generators_shared pkg chain \<Longrightarrow>
     syncGeneratorsToWorld
       \<lparr> suiClient = rpc_client chain object_fails owned_fails, packageId = pkg, currentGameId = cur \<rparr>
       uuidv4 n w = (Inr (), w, n)"
  by (simp add: syncGeneratorsToWorld_def getAllGenerators_shared split: option.splits)

lemma ex_chain_shared: "generators_shared ''0xpkg'' ex_chain"
  by (rule module_ledger_shared [OF ex_chain_module_ledger])

text \<open>
  Claim C5. \<open>getAllGenerators\<close> asks the ledger for the match object, then, for the
  participants listed there and in their order, for the generator objects each address
  holds, and keeps those whose \<open>game_id\<close> is the match asked for. It returns what it has
  gathered when a call throws: nothing when the match cannot be read, the generators of
  the participants before the first failing one otherwise. So it returns exactly the result
  of the enumeration when no call throws, and also, whatever throws, on every ledger
  whose generators are shared objects, where both are empty. Every generator returned is
  held by a listed participant; when object ids are unique, a generator object held by
  nobody in the list (a shared object in particular) is not returned.
\<close>

theorem getAllGenerators_by_participants:
  fixes chain :: "chain_object list" and pkg game :: string and cur :: "string option"
    and object_fails owned_fails :: "string \<Rightarrow> bool"
  defines "svc \<equiv>
    \<lparr> suiClient = rpc_client chain object_fails owned_fails, packageId = pkg, currentGameId = cur \<rparr>"
  defines "ps \<equiv> (case rpc_getObject chain game of Inr (Some m) \<Rightarrow> f_participants m | _ \<Rightarrow> [])"
  defines "held \<equiv> (\<lambda>p.
    concat (map (\<lambda>ob. case obj_value ob of
                         GeneratorValue g \<Rightarrow>
                           if f_game_id g = game then [toGeneratorInfo (obj_id ob) g] else []
                       | _ \<Rightarrow> [])
              (filter (\<lambda>ob. obj_holder ob = AddressOwner p
                           \<and> obj_type ob = pkg @ ''::resource_game::Generator'') chain)))"
  shows "getAllGenerators svc game =
           (if object_fails game then []
            else concat (map held (takeWhile (\<lambda>p. \<not> owned_fails p) ps)))
       \<and> (\<not> object_fails game \<and> (\<forall>p \<in> set ps. \<not> owned_fails p) \<longrightarrow>
            getAllGenerators svc game = concat (map held ps))
       \<and> (generators_shared pkg chain \<longrightarrow>
            getAllGenerators svc game = [] \<and> concat (map held ps) = [])
       \<and> (\<forall>gi \<in> set (getAllGenerators svc game).
            \<exists>ob \<in> set chain. \<exists>p \<in> set ps. obj_id ob = objectId gi \<and> obj_holder ob = AddressOwner p)
       \<and> (distinct (map obj_id chain) \<longrightarrow>
            (\<forall>ob \<in> set chain. (\<forall>p \<in> set ps. obj_holder ob \<noteq> AddressOwner p)
               \<longrightarrow> obj_id ob \<notin> objectId ` set (getAllGenerators svc game)))"
proof -
  have h: "held = held_generators chain pkg game"
    unfolding held_def held_generators_def by (rule refl)
  have eq: "getAllGenerators svc game =
           (if object_fails game then []
            else concat (map held (takeWhile (\<lambda>p. \<not> owned_fails p) ps)))"
    unfolding svc_def ps_def h by (rule getAllGenerators_rpc)
  have exact: "getAllGenerators svc game = concat (map held ps)"
    if "\<not> object_fails game \<and> (\<forall>p \<in> set ps. \<not> owned_fails p)"
  proof -
    have tw: "takeWhile (\<lambda>p. \<not> owned_fails p) ps = ps"
      using that by (simp add: takeWhile_eq_all_conv)
    show ?thesis unfolding eq tw using that by simp
  qed
  have shared: "getAllGenerators svc game = [] \<and> concat (map held ps) = []"
    if "generators_shared pkg chain"
    unfolding svc_def h
    using that by (simp add: getAllGenerators_shared held_generators_shared)
  have holders: "\<forall>gi \<in> set (getAllGenerators svc game).
            \<exists>ob \<in> set chain. \<exists>p \<in> set ps. obj_id ob = objectId gi \<and> obj_holder ob = AddressOwner p"
  proof
    fix gi
    assume "gi \<in> set (getAllGenerators svc game)"
    then obtain p where p: "p \<in> set (takeWhile (\<lambda>p. \<not> owned_fails p) ps)"
        "gi \<in> set (held_generators chain pkg game p)"
      unfolding eq h by (auto split: if_splits)
    from p(1) have "p \<in> set ps" by (rule set_takeWhileD [THEN conjunct1])
    then show "\<exists>ob \<in> set chain. \<exists>p \<in> set ps. obj_id ob = objectId gi \<and> obj_holder ob = AddressOwner p"
      using held_generators_holder [OF p(2)] by blast
  qed
  have others: "\<forall>ob \<in> set chain. (\<forall>p \<in> set ps. obj_holder ob \<noteq> AddressOwner p)
               \<longrightarrow> obj_id ob \<notin> objectId ` set (getAllGenerators svc game)"
    if d: "distinct (map obj_id chain)"
  proof (intro impI ballI notI)
    fix ob
    assume ob: "ob \<in> set chain"
      and np: "\<forall>p \<in> set ps. obj_holder ob \<noteq> AddressOwner p"
      and "obj_id ob \<in> objectId ` set (getAllGenerators svc game)"
    then obtain gi where gi: "gi \<in> set (getAllGenerators svc game)" "objectId gi = obj_id ob" by auto
    then obtain ob' p where o': "ob' \<in> set chain" "p \<in> set ps" "obj_id ob' = objectId gi"
      "obj_holder ob' = AddressOwner p" using holders by blast
    then have "ob' = ob" using distinct_ids_same_object [OF d o'(1) ob] gi(2) by simp
    then show False using np o' by simp
  qed
  show ?thesis
    using eq exact shared holders others by blast
qed

theorem getAllGenerators_by_participants_witness:
  "generators_shared ''0xpkg'' ex_chain
   \<and> distinct (map obj_id ex_chain)
   \<and> getAllGenerators (ex_service ''0xgame'') ''0xgame'' = []
   \<and> getAllGenerators (ex_flaky_service ''0xgame'') ''0xgame'' = []
   \<and> ''0xg1'' \<notin> objectId ` set (getAllGenerators (ex_service ''0xgame'') ''0xgame'')
   \<and> ''0xg2'' \<notin> objectId ` set (getAllGenerators (ex_service ''0xgame'') ''0xgame'')"
proof -
  note t = getAllGenerators_by_participants [of ex_chain "\<lambda>oid. False" "\<lambda>addr. False" "''0xpkg''"
      "Some ''0xgame''" "''0xgame''"]
  note f = getAllGenerators_by_participants [of ex_chain "\<lambda>oid. False" "\<lambda>addr. addr = ''0xbob''"
      "''0xpkg''" "Some ''0xgame''" "''0xgame''"]
  have d: "distinct (map obj_id ex_chain)"
    by (simp add: ex_chain_def)
  have ps: "(case rpc_getObject ex_chain ''0xgame'' of Inr (Some m) \<Rightarrow> f_participants m | _ \<Rightarrow> [])
              = [''0xalice'', ''0xbob'']"
    by (simp add: rpc_getObject_def ex_chain_def)
  have 1: "getAllGenerators (ex_service ''0xgame'') ''0xgame'' = []"
    using t [THEN conjunct2, THEN conjunct1] unfolding ps
    by (simp add: ex_service_def ex_chain_def ex_generator_fields_def)
  have 2: "getAllGenerators (ex_flaky_service ''0xgame'') ''0xgame'' = []"
    using f [THEN conjunct2, THEN conjunct2, THEN conjunct1] ex_chain_shared
    by (simp add: ex_flaky_service_def)
  let ?g1 = "\<lparr> obj_id = ''0xg1'', obj_holder = Shared, obj_type = ''0xpkg::resource_game::Generator'',
        obj_value = GeneratorValue (ex_generator_fields ''0xgame'' ''0x0'' 0) \<rparr>"
  let ?g2 = "\<lparr> obj_id = ''0xg2'', obj_holder = Shared, obj_type = ''0xpkg::resource_game::Generator'',
        obj_value = GeneratorValue (ex_generator_fields ''0xgame'' ''0xbob'' 2) \<rparr>"
  have m: "?g1 \<in> set ex_chain" "?g2 \<in> set ex_chain"
    by (simp_all add: ex_chain_def)
  note o = t [THEN conjunct2, THEN conjunct2, THEN conjunct2, THEN conjunct2, rule_format, OF d]
  have 3: "obj_id ?g1 \<notin> objectId ` set (getAllGenerators (ex_service ''0xgame'') ''0xgame'')"
    using o [OF m(1)] unfolding ps by (simp add: ex_service_def)
  have 4: "obj_id ?g2 \<notin> objectId ` set (getAllGenerators (ex_service ''0xgame'') ''0xgame'')"
    using o [OF m(2)] unfolding ps by (simp add: ex_service_def)
  show ?thesis using ex_chain_shared d 1 2 3 4 by simp
qed

subsection \<open>Running the reconciliation twice\<close>



subsection \<open>Collected items and the projections of claimed generators\<close>

lemma set_Map_values_Map_set:
  "set (Map_values (Map_set k v m)) \<subseteq> insert v (set (Map_values m))"
proof (induction m)
  case Nil
  then show ?case by (simp add: Map_values_def)
next
  case (Cons a m)
  obtain k' v' where a: "a = (k', v')" by (cases a)
  show ?case
  proof (cases "k' = k")
    case True
    then show ?thesis by (auto simp: a Map_values_def)
  next
    case False
    then show ?thesis using Cons.IH by (auto simp: a Map_values_def)
  qed
qed

lemma set_Map_values_assign_first:
  "set (Map_values (assign_first P f m)) \<subseteq> set (Map_values m) \<union> f ` set (Map_values m)"
proof (induction m)
  case Nil
  then show ?case by (simp add: Map_values_def)
next
  case (Cons a m)
  obtain k v where a: "a = (k, v)" by (cases a)
  show ?case
  proof (cases "P v")
    case True
    then show ?thesis by (auto simp: a Map_values_def)
  next
    case False
    then show ?thesis using Cons.IH by (auto simp: a Map_values_def)
  qed
qed

lemma collectedBy_generatorItem:
  "collectedBy (generatorItem gen) = (if owner gen \<noteq> ''0x0'' then Some (owner gen) else None)"
  by (simp add: generatorItem_def Let_def)

lemma collectedBy_extend:
  "collectedBy (ItemFields.extend it (WorldItem.fields u)) = collectedBy it"
  by (simp add: ItemFields.defs WorldItem.defs)

lemma getAllItems_not_collected: "it \<in> set (getAllItems w) \<Longrightarrow> \<not> truthy (collectedBy it)"
  by (simp add: getAllItems_def)

lemma getItemsInRange_subset: "set (getItemsInRange w position rng) \<subseteq> set (getAllItems w)"
  by (auto simp: getItemsInRange_def)

lemma getAllItems_without_collected:
  "getAllItems (w\<lparr>items := filter (\<lambda>kv. \<not> truthy (collectedBy (snd kv))) (items w)\<rparr>) = getAllItems w"
  by (simp add: getAllItems_def Map_values_def filter_map comp_def)

lemma collected_not_listed:
  "truthy (collectedBy it) \<Longrightarrow>
     it \<notin> set (getAllItems v) \<and> it \<notin> set (getItemsInRange v position rng)"
  using getAllItems_not_collected [of it v] getItemsInRange_subset [of v position rng] by blast

lemma addItem_listed:
  assumes "addItem w u it = (r, w')"
  shows "set (getAllItems w') \<subseteq> insert (ItemFields.extend it (WorldItem.fields u)) (set (getAllItems w))"
proof -
  have "items w' = Map_set u (ItemFields.extend it (WorldItem.fields u)) (items w)"
    using assms by (auto simp: addItem_def Let_def split: option.splits if_splits)
  then show ?thesis
    using set_Map_values_Map_set [of u "ItemFields.extend it (WorldItem.fields u)" "items w"]
    by (auto simp: getAllItems_def)
qed

lemma assign_listed:
  "set (getAllItems (w\<lparr>items := assign_first P (\<lambda>ex. Object_assign ex it) (items w)\<rparr>))
     \<subseteq> set (getAllItems w) \<union> (\<lambda>ex. Object_assign ex it) ` set (Map_values (items w))"
  using set_Map_values_assign_first [of P "\<lambda>ex. Object_assign ex it" "items w"]
  by (auto simp: getAllItems_def)

text \<open>
  What a pass of the loop can add to the listed items: every item listed after the pass
  was listed before it or was written in the pass, as a new item or over an existing
  one, from the literal of one of the generators.
\<close>

lemma sync_loop_listed:
  assumes "sync_loop uuidv4 n w gens = (r, w', n')" and "it \<in> set (getAllItems w')"
  shows "it \<in> set (getAllItems w)
       \<or> (\<exists>g \<in> set gens. (\<exists>u. it = ItemFields.extend (generatorItem g) (WorldItem.fields u))
                            \<or> (\<exists>ex. it = Object_assign ex (generatorItem g)))"
  using assms
proof (induction gens arbitrary: n w)
  case Nil
  then show ?case by simp
next
  case (Cons gen gens)
  show ?case
  proof (cases "find (\<lambda>item. item_id item = ''gen_'' @ objectId gen) (getAllItems w)")
    case None
    obtain r1 w1 where a: "addItem w (uuidv4 n) (generatorItem gen) = (r1, w1)"
      by (cases "addItem w (uuidv4 n) (generatorItem gen)")
    note sub1 = addItem_listed [OF a]
    show ?thesis
    proof (cases r1)
      case (Inl e)
      then have "w' = w1" using Cons.prems(1) None a by (simp add: Let_def)
      then show ?thesis using sub1 Cons.prems(2) by auto
    next
      case (Inr added)
      then have "sync_loop uuidv4 (Suc n) w1 gens = (r, w', n')"
        using Cons.prems(1) None a by (simp add: Let_def)
      from Cons.IH [OF this Cons.prems(2)] show ?thesis using sub1 by auto
    qed
  next
    case (Some existing)
    let ?w1 = "w\<lparr>items := assign_first
                    (\<lambda>it. \<not> truthy (collectedBy it) \<and> item_id it = ''gen_'' @ objectId gen)
                    (\<lambda>it. Object_assign it (generatorItem gen)) (items w)\<rparr>"
    have "sync_loop uuidv4 n ?w1 gens = (r, w', n')"
      using Cons.prems(1) Some by (simp add: Let_def)
    from Cons.IH [OF this Cons.prems(2)]
    consider "it \<in> set (getAllItems ?w1)"
      | "\<exists>g \<in> set gens. (\<exists>u. it = ItemFields.extend (generatorItem g) (WorldItem.fields u))
                            \<or> (\<exists>ex. it = Object_assign ex (generatorItem g))"
      by blast
    then show ?thesis
    proof cases
      case 1
      then have "it \<in> set (getAllItems w)
          \<or> it \<in> (\<lambda>ex. Object_assign ex (generatorItem gen)) ` set (Map_values (items w))"
        using assign_listed [where w = w and it = "generatorItem gen"
            and P = "\<lambda>it. \<not> truthy (collectedBy it) \<and> item_id it = ''gen_'' @ objectId gen"]
        by blast
      then show ?thesis by auto
    next
      case 2
      then show ?thesis by auto
    qed
  qed
qed

text \<open>
  The server never stores an empty \<open>collectedBy\<close>. The route that collects an item
  refuses a request without a player id, and the reconciliation stores the owner address
  of a generator, which the ledger never leaves empty.
\<close>

lemma collect_route_stores_player:
  assumes "\<forall>it \<in> set (Map_values (items w)). collectedBy it \<noteq> Some []"
  shows "\<forall>it \<in> set (Map_values (items (snd (collect_route w itemId playerId now)))).
           collectedBy it \<noteq> Some []"
proof (cases "truthy playerId")
  case False
  then show ?thesis using assms by (simp add: collect_route_def)
next
  case True
  then obtain p where p: "playerId = Some p" "p \<noteq> []"
    by (auto simp: truthy_def split: option.splits)
  have c: "\<forall>it \<in> set (Map_values (items (snd (collectItem w itemId p now)))). collectedBy it \<noteq> Some []"
  proof (cases "map_of (items w) itemId")
    case None
    then show ?thesis using assms by (simp add: collectItem_def)
  next
    case (Some item)
    show ?thesis
    proof (cases "truthy (collectedBy item)")
      case True
      then show ?thesis using assms Some by (simp add: collectItem_def)
    next
      case False
      let ?item' = "item\<lparr>collectedBy := Some p, collectedAt := Some now\<rparr>"
      have "items (snd (collectItem w itemId p now)) = Map_set itemId ?item' (items w)"
        using Some False by (simp add: collectItem_def Let_def split: option.splits)
      then show ?thesis
        using assms p(2) set_Map_values_Map_set [of itemId ?item' "items w"] by auto
    qed
  qed
  show ?thesis
    using assms c p by (simp add: collect_route_def split: option.splits)
qed

lemma sync_loop_stores_owner:
  assumes "\<forall>g \<in> set gens. owner g \<noteq> []"
    and "\<forall>it \<in> set (Map_values (items w)). collectedBy it \<noteq> Some []"
    and "sync_loop uuidv4 n w gens = (r, w', n')"
  shows "\<forall>it \<in> set (Map_values (items w')). collectedBy it \<noteq> Some []"
  using assms
proof (induction gens arbitrary: n w)
  case Nil
  then show ?case by simp
next
  case (Cons gen gens)
  have lit: "collectedBy (generatorItem gen) \<noteq> Some []"
    using Cons.prems(1) by (simp add: collectedBy_generatorItem)
  show ?case
  proof (cases "find (\<lambda>item. item_id item = ''gen_'' @ objectId gen) (getAllItems w)")
    case None
    obtain r1 w1 where a: "addItem w (uuidv4 n) (generatorItem gen) = (r1, w1)"
      by (cases "addItem w (uuidv4 n) (generatorItem gen)")
    have "items w1 = Map_set (uuidv4 n)
            (ItemFields.extend (generatorItem gen) (WorldItem.fields (uuidv4 n))) (items w)"
      using a by (auto simp: addItem_def Let_def split: option.splits if_splits)
    then have inv1: "\<forall>it \<in> set (Map_values (items w1)). collectedBy it \<noteq> Some []"
      using Cons.prems(2) lit
        set_Map_values_Map_set [of "uuidv4 n"
          "ItemFields.extend (generatorItem gen) (WorldItem.fields (uuidv4 n))" "items w"]
      by (auto simp: collectedBy_extend)
    show ?thesis
    proof (cases r1)
      case (Inl e)
      then have "w' = w1" using Cons.prems(3) None a by (simp add: Let_def)
      then show ?thesis using inv1 by simp
    next
      case (Inr added)
      then have "sync_loop uuidv4 (Suc n) w1 gens = (r, w', n')"
        using Cons.prems(3) None a by (simp add: Let_def)
      then show ?thesis using Cons.IH [of w1 "Suc n"] Cons.prems(1) inv1 by simp
    qed
  next
    case (Some existing)
    let ?P = "\<lambda>it. \<not> truthy (collectedBy it) \<and> item_id it = ''gen_'' @ objectId gen"
    let ?w1 = "w\<lparr>items := assign_first ?P (\<lambda>it. Object_assign it (generatorItem gen)) (items w)\<rparr>"
    have inv1: "\<forall>it \<in> set (Map_values (items ?w1)). collectedBy it \<noteq> Some []"
      using Cons.prems(2) lit
        set_Map_values_assign_first [of ?P "\<lambda>it. Object_assign it (generatorItem gen)" "items w"]
      by (auto simp: Object_assign_def)
    have "sync_loop uuidv4 n ?w1 gens = (r, w', n')"
      using Cons.prems(3) Some by (simp add: Let_def)
    then show ?thesis using Cons.IH [of ?w1 n] Cons.prems(1) inv1 by simp
  qed
qed

text \<open>
  Claim C10. \<open>getAllItems\<close> keeps the items whose \<open>collectedBy\<close> is not set, by the
  test \<open>!item.collectedBy\<close>, and \<open>getItemsInRange\<close> filters its result. So an item with
  a collector is in neither result; as no empty \<open>collectedBy\<close> is ever stored, this is
  every item whose \<open>collectedBy\<close> is set. The listing queries, the nearby-items section
  built on them and the lookup of the reconciliation answer as they would in the world
  without the collected items. The literal that the reconciliation builds for a claimed
  generator carries the owner address as \<open>collectedBy\<close>; the address not being empty,
  the item written from it, new or over an existing one by \<open>Object.assign\<close>, is in
  neither result in any world, and an item listed after a pass was listed before it or
  was written for an unclaimed generator. On the ledgers of this program, whose generators are shared objects, a pass
  writes no projection at all.
\<close>

theorem collected_items_hidden:
  fixes w w' v :: GameWorld and item existing :: WorldItem and position :: Position and rng :: real
    and agent :: GameAgent and gen :: GeneratorInfo and gens :: "GeneratorInfo list"
    and chain :: "chain_object list" and object_fails owned_fails :: "string \<Rightarrow> bool"
  defines "uncollected \<equiv> w\<lparr>items := filter (\<lambda>kv. \<not> truthy (collectedBy (snd kv))) (items w)\<rparr>"
  shows "(truthy (collectedBy item) \<longrightarrow>
            item \<notin> set (getAllItems w) \<and> item \<notin> set (getItemsInRange w position rng))
       \<and> ((\<forall>it \<in> set (Map_values (items w)). collectedBy it \<noteq> Some []) \<longrightarrow>
            (\<forall>it \<in> set (Map_values (items w)). collectedBy it \<noteq> None \<longrightarrow>
               it \<notin> set (getAllItems w) \<and> it \<notin> set (getItemsInRange w position rng)))
       \<and> getAllItems uncollected = getAllItems w
       \<and> getItemsInRange uncollected position rng = getItemsInRange w position rng
       \<and> buildNearbyItemsInfo uncollected agent rng = buildNearbyItemsInfo w agent rng
       \<and> find (\<lambda>it. item_id it = ''gen_'' @ objectId gen) (getAllItems uncollected)
           = find (\<lambda>it. item_id it = ''gen_'' @ objectId gen) (getAllItems w)
       \<and> (owner gen \<noteq> ''0x0'' \<longrightarrow>
            collectedBy (generatorItem gen) = Some (owner gen)
          \<and> collectedBy (ItemFields.extend (generatorItem gen) (WorldItem.fields uuid)) = Some (owner gen)
          \<and> collectedBy (Object_assign existing (generatorItem gen)) = Some (owner gen))
       \<and> (owner gen \<noteq> ''0x0'' \<and> owner gen \<noteq> [] \<longrightarrow>
            ItemFields.extend (generatorItem gen) (WorldItem.fields uuid) \<notin> set (getAllItems v)
          \<and> ItemFields.extend (generatorItem gen) (WorldItem.fields uuid)
               \<notin> set (getItemsInRange v position rng)
          \<and> Object_assign existing (generatorItem gen) \<notin> set (getAllItems v)
          \<and> Object_assign existing (generatorItem gen) \<notin> set (getItemsInRange v position rng))
       \<and> (sync_loop uuids n w gens = (r, w', n') \<longrightarrow>
            (\<forall>it \<in> set (getAllItems w').
               it \<in> set (getAllItems w)
             \<or> (\<exists>g \<in> set gens. (owner g = ''0x0'' \<or> owner g = [])
                  \<and> ((\<exists>u. it = ItemFields.extend (generatorItem g) (WorldItem.fields u))
                     \<or> (\<exists>ex. it = Object_assign ex (generatorItem g))))))
       \<and> (generators_shared pkg chain \<longrightarrow>
            syncGeneratorsToWorld
              \<lparr> suiClient = rpc_client chain object_fails owned_fails, packageId = pkg,
                currentGameId = cur \<rparr> uuids n w = (Inr (), w, n))"
proof -
  have c1: "truthy (collectedBy item) \<longrightarrow>
            item \<notin> set (getAllItems w) \<and> item \<notin> set (getItemsInRange w position rng)"
    using collected_not_listed by blast
  have c2: "(\<forall>it \<in> set (Map_values (items w)). collectedBy it \<noteq> Some []) \<longrightarrow>
            (\<forall>it \<in> set (Map_values (items w)). collectedBy it \<noteq> None \<longrightarrow>
               it \<notin> set (getAllItems w) \<and> it \<notin> set (getItemsInRange w position rng))"
  proof (intro impI ballI)
    fix it
    assume inv: "\<forall>it \<in> set (Map_values (items w)). collectedBy it \<noteq> Some []"
      and it: "it \<in> set (Map_values (items w))" and set: "collectedBy it \<noteq> None"
    then have "truthy (collectedBy it)"
      by (auto simp: truthy_def split: option.splits)
    then show "it \<notin> set (getAllItems w) \<and> it \<notin> set (getItemsInRange w position rng)"
      by (rule collected_not_listed)
  qed
  have c3: "getAllItems uncollected = getAllItems w"
    unfolding uncollected_def by (rule getAllItems_without_collected)
  have c4: "getItemsInRange uncollected p d = getItemsInRange w p d" for p d
    by (simp add: getItemsInRange_def c3)
  have c5: "buildNearbyItemsInfo uncollected agent rng = buildNearbyItemsInfo w agent rng"
    by (simp add: buildNearbyItemsInfo_def c4)
  have c6: "find (\<lambda>it. item_id it = ''gen_'' @ objectId gen) (getAllItems uncollected)
           = find (\<lambda>it. item_id it = ''gen_'' @ objectId gen) (getAllItems w)"
    by (simp only: c3)
  have c7: "owner gen \<noteq> ''0x0'' \<longrightarrow>
            collectedBy (generatorItem gen) = Some (owner gen)
          \<and> collectedBy (ItemFields.extend (generatorItem gen) (WorldItem.fields uuid)) = Some (owner gen)
          \<and> collectedBy (Object_assign existing (generatorItem gen)) = Some (owner gen)"
    by (simp add: collectedBy_generatorItem collectedBy_extend Object_assign_def)
  have c7': "owner gen \<noteq> ''0x0'' \<and> owner gen \<noteq> [] \<longrightarrow>
            ItemFields.extend (generatorItem gen) (WorldItem.fields uuid) \<notin> set (getAllItems v)
          \<and> ItemFields.extend (generatorItem gen) (WorldItem.fields uuid)
               \<notin> set (getItemsInRange v position rng)
          \<and> Object_assign existing (generatorItem gen) \<notin> set (getAllItems v)
          \<and> Object_assign existing (generatorItem gen) \<notin> set (getItemsInRange v position rng)"
  proof
    assume claimed: "owner gen \<noteq> ''0x0'' \<and> owner gen \<noteq> []"
    have t1: "truthy (collectedBy (ItemFields.extend (generatorItem gen) (WorldItem.fields uuid)))"
      using claimed by (simp add: collectedBy_generatorItem collectedBy_extend truthy_def)
    have t2: "truthy (collectedBy (Object_assign existing (generatorItem gen)))"
      using claimed by (simp add: collectedBy_generatorItem Object_assign_def truthy_def)
    show "ItemFields.extend (generatorItem gen) (WorldItem.fields uuid) \<notin> set (getAllItems v)
          \<and> ItemFields.extend (generatorItem gen) (WorldItem.fields uuid)
               \<notin> set (getItemsInRange v position rng)
          \<and> Object_assign existing (generatorItem gen) \<notin> set (getAllItems v)
          \<and> Object_assign existing (generatorItem gen) \<notin> set (getItemsInRange v position rng)"
      using collected_not_listed [OF t1, of v position rng] collected_not_listed [OF t2, of v position rng]
      by simp
  qed
  have c8: "sync_loop uuids n w gens = (r, w', n') \<longrightarrow>
            (\<forall>it \<in> set (getAllItems w').
               it \<in> set (getAllItems w)
             \<or> (\<exists>g \<in> set gens. (owner g = ''0x0'' \<or> owner g = [])
                  \<and> ((\<exists>u. it = ItemFields.extend (generatorItem g) (WorldItem.fields u))
                     \<or> (\<exists>ex. it = Object_assign ex (generatorItem g)))))"
  proof (intro impI ballI)
    fix it
    assume run: "sync_loop uuids n w gens = (r, w', n')" and it: "it \<in> set (getAllItems w')"
    have nc: "\<not> truthy (collectedBy it)"
      using it by (rule getAllItems_not_collected)
    from sync_loop_listed [OF run it]
    consider "it \<in> set (getAllItems w)"
      | g where "g \<in> set gens"
          "(\<exists>u. it = ItemFields.extend (generatorItem g) (WorldItem.fields u))
             \<or> (\<exists>ex. it = Object_assign ex (generatorItem g))"
      by blast
    then show "it \<in> set (getAllItems w)
             \<or> (\<exists>g \<in> set gens. (owner g = ''0x0'' \<or> owner g = [])
                  \<and> ((\<exists>u. it = ItemFields.extend (generatorItem g) (WorldItem.fields u))
                     \<or> (\<exists>ex. it = Object_assign ex (generatorItem g))))"
    proof cases
      case 1
      then show ?thesis by simp
    next
      case 2
      from 2(2) have "collectedBy it = collectedBy (generatorItem g)"
        by (auto simp: collectedBy_extend Object_assign_def)
      then have "owner g = ''0x0'' \<or> owner g = []"
        using nc by (auto simp: collectedBy_generatorItem truthy_def split: if_splits)
      then show ?thesis using 2 by blast
    qed
  qed
  have c9: "generators_shared pkg chain \<longrightarrow>
            syncGeneratorsToWorld
              \<lparr> suiClient = rpc_client chain object_fails owned_fails, packageId = pkg,
                currentGameId = cur \<rparr> uuids n w = (Inr (), w, n)"
    using sync_shared by blast
  show ?thesis
    using c1 c2 c3 c4 [of position rng] c5 c6 c7 c7' c8 c9 by (intro conjI)
qed

theorem collected_items_hidden_witness:
  "truthy (collectedBy (ex_item (Some ''player-1'')))
   \<and> ex_item (Some ''player-1'') \<in> set (Map_values (items (ex_world (Some ''player-1''))))
   \<and> ex_item (Some ''player-1'') \<notin> set (getAllItems (ex_world (Some ''player-1'')))
   \<and> ex_item (Some ''player-1'') \<notin> set (getItemsInRange (ex_world (Some ''player-1''))
         \<lparr> pos_x = 30, pos_y = 30 \<rparr> 5)
   \<and> getAllItems (ex_world None) = [ex_item None]
   \<and> owner (toGeneratorInfo ''0xg2'' (ex_generator_fields ''0xgame'' ''0xbob'' 2)) = ''0xbob''
   \<and> collectedBy (generatorItem (toGeneratorInfo ''0xg2'' (ex_generator_fields ''0xgame'' ''0xbob'' 2)))
       = Some ''0xbob''
   \<and> generators_shared ''0xpkg'' ex_chain
   \<and> getAllItems (fst (snd (syncGeneratorsToWorld (ex_service ''0xgame'') ex_uuidv4 0 (ex_world None))))
       = [ex_item None]"
proof -
  let ?g = "toGeneratorInfo ''0xg2'' (ex_generator_fields ''0xgame'' ''0xbob'' 2)"
  let ?w = "ex_world (Some ''player-1'')"
  have tr: "truthy (collectedBy (ex_item (Some ''player-1'')))"
    by (simp add: truthy_def ex_item_def)
  have mem: "ex_item (Some ''player-1'') \<in> set (Map_values (items ?w))"
    by (simp add: ex_world_def Map_values_def)
  have inv: "\<forall>it \<in> set (Map_values (items ?w)). collectedBy it \<noteq> Some []"
    by (simp add: ex_world_def Map_values_def ex_item_def)
  have st: "collectedBy (ex_item (Some ''player-1'')) \<noteq> None"
    by (simp add: ex_item_def)
  have 1: "ex_item (Some ''player-1'') \<notin> set (getAllItems ?w)
      \<and> ex_item (Some ''player-1'') \<notin> set (getItemsInRange ?w \<lparr> pos_x = 30, pos_y = 30 \<rparr> 5)"
    using collected_items_hidden [where w = ?w and position = "\<lparr> pos_x = 30, pos_y = 30 \<rparr>"
        and rng = 5, THEN conjunct2, THEN conjunct1] inv mem st
    by blast
  have 2: "getAllItems (ex_world None) = [ex_item None]"
    by (simp add: getAllItems_def Map_values_def ex_world_def ex_item_def truthy_def)
  have ow: "owner ?g = ''0xbob''"
    by (simp add: toGeneratorInfo_def ex_generator_fields_def)
  have 3: "collectedBy (generatorItem ?g) = Some ''0xbob''"
    using collected_items_hidden [where gen = ?g] ow by simp
  have 4: "syncGeneratorsToWorld (ex_service ''0xgame'') ex_uuidv4 0 (ex_world None)
       = (Inr (), ex_world None, 0)"
    using collected_items_hidden [where w = "ex_world None" and uuids = ex_uuidv4 and n = 0
        and pkg = "''0xpkg''" and chain = ex_chain and object_fails = "\<lambda>oid. False"
        and owned_fails = "\<lambda>addr. False" and cur = "Some ''0xgame''"] ex_chain_shared
    by (simp add: ex_service_def)
  show ?thesis
    unfolding 4 using tr mem 1 2 ow 3 ex_chain_shared by simp
qed

subsection \<open>The insertion step of the reconciliation loop\<close>

text \<open>
  The loop itself looks a projection up by the id \<open>gen_\<close> plus the object id, but
  inserts through \<open>addItem\<close>, which stores the item under a fresh uuid. Were a pass ever
  handed generators, with persistence off, no listed item id starting with \<open>gen_\<close> and a
  uuid source that yields no such id, it would insert one item for each of them and leave
  the world in the same condition for the next pass.
\<close>

lemma item_id_extend: "item_id (ItemFields.extend it (WorldItem.fields u)) = u"
  by (simp add: ItemFields.defs WorldItem.defs)

lemma addItem_without_mirror:
  assumes "esService w = None"
  shows "addItem w u it =
           (Inr (ItemFields.extend it (WorldItem.fields u)),
            w\<lparr>items := Map_set u (ItemFields.extend it (WorldItem.fields u)) (items w)\<rparr>)"
  using assms by (simp add: addItem_def Let_def)

lemma sync_loop_adds_every_pass:
  assumes "esService w = None"
    and "\<forall>it \<in> set (getAllItems w). \<not> startsWith (item_id it) ''gen_''"
    and "\<forall>k. \<not> startsWith (uuidv4 k) ''gen_''"
  shows "\<exists>w'. sync_loop uuidv4 n w gens = (Inr (), w', n + length gens)
           \<and> esService w' = None
           \<and> (\<forall>it \<in> set (getAllItems w'). \<not> startsWith (item_id it) ''gen_'')"
  using assms
proof (induction gens arbitrary: n w)
  case Nil
  then show ?case by simp
next
  case (Cons gen gens)
  let ?new = "ItemFields.extend (generatorItem gen) (WorldItem.fields (uuidv4 n))"
  let ?w1 = "w\<lparr>items := Map_set (uuidv4 n) ?new (items w)\<rparr>"
  have "startsWith (''gen_'' @ objectId gen) ''gen_''"
    by (simp add: startsWith_def)
  then have nf: "find (\<lambda>item. item_id item = ''gen_'' @ objectId gen) (getAllItems w) = None"
    using Cons.prems(2) by (auto simp: find_None_iff)
  have add: "addItem w (uuidv4 n) (generatorItem gen) = (Inr ?new, ?w1)"
    by (rule addItem_without_mirror [OF Cons.prems(1)])
  have step: "sync_loop uuidv4 n w (gen # gens) = sync_loop uuidv4 (Suc n) ?w1 gens"
    using nf add by (simp add: Let_def)
  have es1: "esService ?w1 = None"
    using Cons.prems(1) by simp
  have "set (getAllItems ?w1) \<subseteq> insert ?new (set (getAllItems w))"
    using set_Map_values_Map_set [of "uuidv4 n" ?new "items w"]
    by (auto simp: getAllItems_def)
  then have vis1: "\<forall>it \<in> set (getAllItems ?w1). \<not> startsWith (item_id it) ''gen_''"
    using Cons.prems(2,3) by (auto simp: item_id_extend)
  obtain w' where "sync_loop uuidv4 (Suc n) ?w1 gens = (Inr (), w', Suc n + length gens)"
    "esService w' = None" "\<forall>it \<in> set (getAllItems w'). \<not> startsWith (item_id it) ''gen_''"
    using Cons.IH [OF es1 vis1 Cons.prems(3)] by blast
  then show ?case using step by simp
qed

subsection \<open>The sections of the context\<close>

lemma join_Cons_nonempty: "t \<noteq> [] \<Longrightarrow> join sep (h # t) = h @ sep @ join sep t"
  by (cases t) simp_all

text \<open>
  Every builder settles, whatever its collaborators answer, and its text is its heading,
  a line break and at least one more line.
\<close>

lemma buildSelfInfo_section:
  "\<exists>rest. buildSelfInfo sui agent = Inr (''YOUR CURRENT STATUS:'' @ [CHR 0x0A] @ rest)"
  unfolding buildSelfInfo_def Let_def await_def try_catch_def nl_def
  by (simp split: option.split sum.split)

lemma buildResourcesInfo_section:
  "\<exists>rest. buildResourcesInfo sui agent = Inr (''YOUR RESOURCES:'' @ [CHR 0x0A] @ rest)"
  unfolding buildResourcesInfo_def Let_def await_def try_catch_def nl_def
  by (simp split: option.split sum.split)

lemma buildNearbyAgentsInfo_section:
  "\<exists>rest. buildNearbyAgentsInfo w agent rng = ''NEARBY NPCs:'' @ [CHR 0x0A] @ rest"
  unfolding buildNearbyAgentsInfo_def Let_def nl_def
  by (simp add: join_Cons_nonempty)

lemma buildNearbyItemsInfo_section:
  "\<exists>rest. buildNearbyItemsInfo w agent rng = ''NEARBY ITEMS:'' @ [CHR 0x0A] @ rest"
  unfolding buildNearbyItemsInfo_def Let_def nl_def
  by (simp add: join_Cons_nonempty)

lemma await_Inr: "await (Inr v) continuation = continuation v"
  by (simp add: await_def)

lemma Promise_all_nonempty: "Promise_all ps = Inr vs \<Longrightarrow> ps \<noteq> [] \<Longrightarrow> vs \<noteq> []"
  by (cases ps) (auto split: sum.splits)

lemma described_or_fallback:
  assumes "ps \<noteq> []"
  shows "\<exists>rest. try_catch (await (Promise_all ps) (\<lambda>ds. Inr (join [CHR 0x0A] (h # ds))))
                  (\<lambda>error. Inr (h @ [CHR 0x0A] @ t))
                = Inr (h @ [CHR 0x0A] @ rest)"
proof (cases "Promise_all ps")
  case (Inl e)
  then show ?thesis by (simp add: await_def try_catch_def)
next
  case (Inr ds)
  then have "ds \<noteq> []" using assms by (rule Promise_all_nonempty)
  then show ?thesis using Inr by (simp add: await_def try_catch_def join_Cons_nonempty)
qed

lemma buildNearbyPlayersInfo_section:
  "\<exists>rest. buildNearbyPlayersInfo es sui agent rng = Inr (''NEARBY PLAYERS:'' @ [CHR 0x0A] @ rest)"
proof (cases es)
  case None
  then show ?thesis by (simp add: buildNearbyPlayersInfo_def nl_def)
next
  case (Some esvc)
  show ?thesis
  proof (cases "getAllPlayers esvc")
    case (Inl e)
    then show ?thesis
      using Some by (simp add: buildNearbyPlayersInfo_def nl_def await_def try_catch_def)
  next
    case (Inr allPlayers)
    let ?nearby = "filter (\<lambda>player.
        calculateDistance (agent_position agent) (player_position player) \<le> rng) allPlayers"
    show ?thesis
    proof (cases "?nearby = []")
      case True
      then show ?thesis
        using Some Inr by (simp add: buildNearbyPlayersInfo_def nl_def await_def try_catch_def)
    next
      case False
      then have ne: "length ?nearby \<noteq> 0" by simp
      show ?thesis
        unfolding buildNearbyPlayersInfo_def Some Inr option.case await_Inr Let_def nl_def
        apply (simp only: ne if_False)
        apply (rule described_or_fallback)
        using False apply simp
        done
    qed
  qed
qed

lemma buildNearbyGeneratorsInfo_section:
  "\<exists>rest. buildNearbyGeneratorsInfo sui agent rng = Inr (''NEARBY GENERATORS:'' @ [CHR 0x0A] @ rest)"
  unfolding buildNearbyGeneratorsInfo_def Let_def await_def try_catch_def nl_def
  by (simp add: join_Cons_nonempty split: option.split sum.split)

lemma buildTradeProposalsInfo_section:
  "\<exists>rest. buildTradeProposalsInfo sui agent = Inr (''TRADE PROPOSALS:'' @ [CHR 0x0A] @ rest)"
  unfolding buildTradeProposalsInfo_def Let_def await_def try_catch_def nl_def
  by (simp add: join_Cons_nonempty split: option.split sum.split)

lemma buildWorldInfo_section:
  "\<exists>rest. buildWorldInfo w sui = Inr (''WORLD INFORMATION:'' @ [CHR 0x0A] @ rest)"
  unfolding buildWorldInfo_def Let_def await_def nl_def
  by (simp split: option.split sum.split)

text \<open>
  Claim C8. Whatever collaborators are configured and whatever they answer, the call
  settles, and the full context is the header line, the eight sections in the order
  self status, resources, nearby NPCs, nearby players, nearby generators, nearby items,
  trade proposals, world information, and the footer line, each two separated by a blank
  line. Every section is its own heading, a line break and the lines that follow, so none
  is dropped by the filter for empty sections.
\<close>

theorem context_sections_fixed_order:
  "\<exists>c. generateAgentContext w es sui agent r = Inr c
      \<and> fullContext c =
          ''=== CURRENT CONTEXT ==='' @ [CHR 0x0A, CHR 0x0A]
          @ selfInfo c @ [CHR 0x0A, CHR 0x0A]
          @ resourcesInfo c @ [CHR 0x0A, CHR 0x0A]
          @ nearbyAgents c @ [CHR 0x0A, CHR 0x0A]
          @ nearbyPlayers c @ [CHR 0x0A, CHR 0x0A]
          @ nearbyGenerators c @ [CHR 0x0A, CHR 0x0A]
          @ nearbyItems c @ [CHR 0x0A, CHR 0x0A]
          @ tradeProposals c @ [CHR 0x0A, CHR 0x0A]
          @ worldInfo c @ [CHR 0x0A, CHR 0x0A]
          @ ''===================''
      \<and> (\<exists>rest. selfInfo c = ''YOUR CURRENT STATUS:'' @ [CHR 0x0A] @ rest)
      \<and> (\<exists>rest. resourcesInfo c = ''YOUR RESOURCES:'' @ [CHR 0x0A] @ rest)
      \<and> (\<exists>rest. nearbyAgents c = ''NEARBY NPCs:'' @ [CHR 0x0A] @ rest)
      \<and> (\<exists>rest. nearbyPlayers c = ''NEARBY PLAYERS:'' @ [CHR 0x0A] @ rest)
      \<and> (\<exists>rest. nearbyGenerators c = ''NEARBY GENERATORS:'' @ [CHR 0x0A] @ rest)
      \<and> (\<exists>rest. nearbyItems c = ''NEARBY ITEMS:'' @ [CHR 0x0A] @ rest)
      \<and> (\<exists>rest. tradeProposals c = ''TRADE PROPOSALS:'' @ [CHR 0x0A] @ rest)
      \<and> (\<exists>rest. worldInfo c = ''WORLD INFORMATION:'' @ [CHR 0x0A] @ rest)"
proof -
  obtain r1 where s1: "buildSelfInfo sui agent = Inr (''YOUR CURRENT STATUS:'' @ [CHR 0x0A] @ r1)"
    using buildSelfInfo_section by blast
  obtain r2 where s2: "buildResourcesInfo sui agent = Inr (''YOUR RESOURCES:'' @ [CHR 0x0A] @ r2)"
    using buildResourcesInfo_section by blast
  obtain r3 where s3: "buildNearbyAgentsInfo w agent r = ''NEARBY NPCs:'' @ [CHR 0x0A] @ r3"
    using buildNearbyAgentsInfo_section by blast
  obtain r4 where s4: "buildNearbyPlayersInfo es sui agent r = Inr (''NEARBY PLAYERS:'' @ [CHR 0x0A] @ r4)"
    using buildNearbyPlayersInfo_section by blast
  obtain r5 where s5: "buildNearbyGeneratorsInfo sui agent r = Inr (''NEARBY GENERATORS:'' @ [CHR 0x0A] @ r5)"
    using buildNearbyGeneratorsInfo_section by blast
  obtain r6 where s6: "buildNearbyItemsInfo w agent r = ''NEARBY ITEMS:'' @ [CHR 0x0A] @ r6"
    using buildNearbyItemsInfo_section by blast
  obtain r7 where s7: "buildTradeProposalsInfo sui agent = Inr (''TRADE PROPOSALS:'' @ [CHR 0x0A] @ r7)"
    using buildTradeProposalsInfo_section by blast
  obtain r8 where s8: "buildWorldInfo w sui = Inr (''WORLD INFORMATION:'' @ [CHR 0x0A] @ r8)"
    using buildWorldInfo_section by blast
  show ?thesis
    unfolding generateAgentContext_def s1 s2 s3 s4 s5 s6 s7 s8 await_Inr Let_def
    by (simp add: nl_def)
qed

theorem context_sections_fixed_order_witness:
  "\<exists>c. generateAgentContext (ex_world (Some ''player-1'')) (Some ex_players_down)
         (Some ex_ledger_down) ex_agent 20 = Inr c
      \<and> fullContext c =
       ''=== CURRENT CONTEXT ===''
       @ [CHR 0x0A, CHR 0x0A]
       @ ''YOUR CURRENT STATUS:''
       @ [CHR 0x0A]
       @ ''- Name: Bob''
       @ [CHR 0x0A]
       @ ''- Description: a trader''
       @ [CHR 0x0A]
       @ ''- Current Position: (50, 50)''
       @ [CHR 0x0A]
       @ ''- Your Sui Wallet Address: 0xb0b''
       @ [CHR 0x0A]
       @ ''- You are currently in the game world. Remember to roleplay as your character.''
       @ [CHR 0x0A, CHR 0x0A]
       @ ''YOUR RESOURCES:''
       @ [CHR 0x0A]
       @ ''- Error loading resources''
       @ [CHR 0x0A, CHR 0x0A]
       @ ''NEARBY NPCs:''
       @ [CHR 0x0A]
       @ ''- None within visible range''
       @ [CHR 0x0A, CHR 0x0A]
       @ ''NEARBY PLAYERS:''
       @ [CHR 0x0A]
       @ ''- Error loading player information''
       @ [CHR 0x0A, CHR 0x0A]
       @ ''NEARBY GENERATORS:''
       @ [CHR 0x0A]
       @ ''- Error loading generator information''
       @ [CHR 0x0A, CHR 0x0A]
       @ ''NEARBY ITEMS:''
       @ [CHR 0x0A]
       @ ''- None within visible range''
       @ [CHR 0x0A, CHR 0x0A]
       @ ''TRADE PROPOSALS:''
       @ [CHR 0x0A]
       @ ''- Error loading trade information''
       @ [CHR 0x0A, CHR 0x0A]
       @ ''WORLD INFORMATION:''
       @ [CHR 0x0A]
       @ ''- World Size: 100x100 units''
       @ [CHR 0x0A]
       @ ''- Total NPCs in world: 0''
       @ [CHR 0x0A]
       @ ''- Total items in world: 0''
       @ [CHR 0x0A]
       @ ''- Remember: You can move around, interact with items, manage generators, trade resources, and converse with players and other NPCs''
       @ [CHR 0x0A, CHR 0x0A]
       @ ''===================''"
proof -
  let ?w = "ex_world (Some ''player-1'')"
  obtain c where c: "generateAgentContext ?w (Some ex_players_down) (Some ex_ledger_down) ex_agent 20
      = Inr c"
    and full: "fullContext c =
          ''=== CURRENT CONTEXT ==='' @ [CHR 0x0A, CHR 0x0A]
          @ selfInfo c @ [CHR 0x0A, CHR 0x0A]
          @ resourcesInfo c @ [CHR 0x0A, CHR 0x0A]
          @ nearbyAgents c @ [CHR 0x0A, CHR 0x0A]
          @ nearbyPlayers c @ [CHR 0x0A, CHR 0x0A]
          @ nearbyGenerators c @ [CHR 0x0A, CHR 0x0A]
          @ nearbyItems c @ [CHR 0x0A, CHR 0x0A]
          @ tradeProposals c @ [CHR 0x0A, CHR 0x0A]
          @ worldInfo c @ [CHR 0x0A, CHR 0x0A]
          @ ''===================''"
    using context_sections_fixed_order [of ?w "Some ex_players_down" "Some ex_ledger_down" ex_agent 20]
    by blast
  have b: "buildSelfInfo (Some ex_ledger_down) ex_agent = Inr
          (''YOUR CURRENT STATUS:''
          @ [CHR 0x0A]
          @ ''- Name: Bob''
          @ [CHR 0x0A]
          @ ''- Description: a trader''
          @ [CHR 0x0A]
          @ ''- Current Position: (50, 50)''
          @ [CHR 0x0A]
          @ ''- Your Sui Wallet Address: 0xb0b''
          @ [CHR 0x0A]
          @ ''- You are currently in the game world. Remember to roleplay as your character.'')"
    "buildResourcesInfo (Some ex_ledger_down) ex_agent = Inr (''YOUR RESOURCES:'' @ [CHR 0x0A] @ ''- Error loading resources'')"
    "buildNearbyAgentsInfo ?w ex_agent 20 = ''NEARBY NPCs:'' @ [CHR 0x0A] @ ''- None within visible range''"
    "buildNearbyPlayersInfo (Some ex_players_down) (Some ex_ledger_down) ex_agent 20
       = Inr (''NEARBY PLAYERS:'' @ [CHR 0x0A] @ ''- Error loading player information'')"
    "buildNearbyGeneratorsInfo (Some ex_ledger_down) ex_agent 20
       = Inr (''NEARBY GENERATORS:'' @ [CHR 0x0A] @ ''- Error loading generator information'')"
    "buildNearbyItemsInfo ?w ex_agent 20 = ''NEARBY ITEMS:'' @ [CHR 0x0A] @ ''- None within visible range''"
    "buildTradeProposalsInfo (Some ex_ledger_down) ex_agent = Inr (''TRADE PROPOSALS:'' @ [CHR 0x0A] @ ''- Error loading trade information'')"
    "buildWorldInfo ?w (Some ex_ledger_down) = Inr
          (''WORLD INFORMATION:''
          @ [CHR 0x0A]
          @ ''- World Size: 100x100 units''
          @ [CHR 0x0A]
          @ ''- Total NPCs in world: 0''
          @ [CHR 0x0A]
          @ ''- Total items in world: 0''
          @ [CHR 0x0A]
          @ ''- Remember: You can move around, interact with items, manage generators, trade resources, and converse with players and other NPCs'')"
    by (simp_all add: buildSelfInfo_def buildResourcesInfo_def buildNearbyAgentsInfo_def
        buildNearbyPlayersInfo_def buildNearbyGeneratorsInfo_def buildNearbyItemsInfo_def
        buildTradeProposalsInfo_def buildWorldInfo_def await_def try_catch_def nl_def Let_def
        ex_ledger_down_def ex_players_down_def ex_agent_def Math_round_50 ex_world_empty_views
        Number_toString_samples truthy_def)
  have s: "selfInfo c =
          ''YOUR CURRENT STATUS:''
          @ [CHR 0x0A]
          @ ''- Name: Bob''
          @ [CHR 0x0A]
          @ ''- Description: a trader''
          @ [CHR 0x0A]
          @ ''- Current Position: (50, 50)''
          @ [CHR 0x0A]
          @ ''- Your Sui Wallet Address: 0xb0b''
          @ [CHR 0x0A]
          @ ''- You are currently in the game world. Remember to roleplay as your character.''"
    "resourcesInfo c = ''YOUR RESOURCES:'' @ [CHR 0x0A] @ ''- Error loading resources''"
    "nearbyAgents c = ''NEARBY NPCs:'' @ [CHR 0x0A] @ ''- None within visible range''"
    "nearbyPlayers c = ''NEARBY PLAYERS:'' @ [CHR 0x0A] @ ''- Error loading player information''"
    "nearbyGenerators c = ''NEARBY GENERATORS:'' @ [CHR 0x0A] @ ''- Error loading generator information''"
    "nearbyItems c = ''NEARBY ITEMS:'' @ [CHR 0x0A] @ ''- None within visible range''"
    "tradeProposals c = ''TRADE PROPOSALS:'' @ [CHR 0x0A] @ ''- Error loading trade information''"
    "worldInfo c =
          ''WORLD INFORMATION:''
          @ [CHR 0x0A]
          @ ''- World Size: 100x100 units''
          @ [CHR 0x0A]
          @ ''- Total NPCs in world: 0''
          @ [CHR 0x0A]
          @ ''- Total items in world: 0''
          @ [CHR 0x0A]
          @ ''- Remember: You can move around, interact with items, manage generators, trade resources, and converse with players and other NPCs''"
    using c unfolding generateAgentContext_def b await_Inr Let_def by auto
  have "fullContext c =
       ''=== CURRENT CONTEXT ===''
       @ [CHR 0x0A, CHR 0x0A]
       @ ''YOUR CURRENT STATUS:''
       @ [CHR 0x0A]
       @ ''- Name: Bob''
       @ [CHR 0x0A]
       @ ''- Description: a trader''
       @ [CHR 0x0A]
       @ ''- Current Position: (50, 50)''
       @ [CHR 0x0A]
       @ ''- Your Sui Wallet Address: 0xb0b''
       @ [CHR 0x0A]
       @ ''- You are currently in the game world. Remember to roleplay as your character.''
       @ [CHR 0x0A, CHR 0x0A]
       @ ''YOUR RESOURCES:''
       @ [CHR 0x0A]
       @ ''- Error loading resources''
       @ [CHR 0x0A, CHR 0x0A]
       @ ''NEARBY NPCs:''
       @ [CHR 0x0A]
       @ ''- None within visible range''
       @ [CHR 0x0A, CHR 0x0A]
       @ ''NEARBY PLAYERS:''
       @ [CHR 0x0A]
       @ ''- Error loading player information''
       @ [CHR 0x0A, CHR 0x0A]
       @ ''NEARBY GENERATORS:''
       @ [CHR 0x0A]
       @ ''- Error loading generator information''
       @ [CHR 0x0A, CHR 0x0A]
       @ ''NEARBY ITEMS:''
       @ [CHR 0x0A]
       @ ''- None within visible range''
       @ [CHR 0x0A, CHR 0x0A]
       @ ''TRADE PROPOSALS:''
       @ [CHR 0x0A]
       @ ''- Error loading trade information''
       @ [CHR 0x0A, CHR 0x0A]
       @ ''WORLD INFORMATION:''
       @ [CHR 0x0A]
       @ ''- World Size: 100x100 units''
       @ [CHR 0x0A]
       @ ''- Total NPCs in world: 0''
       @ [CHR 0x0A]
       @ ''- Total items in world: 0''
       @ [CHR 0x0A]
       @ ''- Remember: You can move around, interact with items, manage generators, trade resources, and converse with players and other NPCs''
       @ [CHR 0x0A, CHR 0x0A]
       @ ''===================''"
    unfolding full s by (simp only: append_assoc)
  then show ?thesis using c by blast
qed

text \<open>
  Claim C4. With neither collaborator configured the call settles: no step of it rejects.
  The self-status section is its heading, the four lines of the agent and the closing
  line; the resources, nearby-players, nearby-generators and trade-proposals sections
  are each the heading and one fixed placeholder line; and the full context holds these
  texts, with the two sections read from the world, in the fixed order.
\<close>

theorem context_without_collaborators:
  "\<exists>c. generateAgentContext w None None agent r = Inr c
      \<and> selfInfo c =
          ''YOUR CURRENT STATUS:''
          @ [CHR 0x0A]
          @ ''- Name: '' @ agent_name agent
          @ [CHR 0x0A]
          @ ''- Description: '' @ agent_description agent
          @ [CHR 0x0A]
          @ ''- Current Position: ('' @ Number_toString (Math_round (pos_x (agent_position agent)))
              @ '', '' @ Number_toString (Math_round (pos_y (agent_position agent))) @ '')''
          @ [CHR 0x0A]
          @ ''- Your Sui Wallet Address: '' @ suiAddress agent
          @ [CHR 0x0A]
          @ ''- You are currently in the game world. Remember to roleplay as your character.''
      \<and> resourcesInfo c = ''YOUR RESOURCES:'' @ [CHR 0x0A] @ ''- Resource tracking not available''
      \<and> nearbyAgents c = buildNearbyAgentsInfo w agent r
      \<and> nearbyPlayers c = ''NEARBY PLAYERS:'' @ [CHR 0x0A] @ ''- Player tracking not available''
      \<and> nearbyGenerators c = ''NEARBY GENERATORS:'' @ [CHR 0x0A] @ ''- Generator tracking not available''
      \<and> nearbyItems c = buildNearbyItemsInfo w agent r
      \<and> tradeProposals c = ''TRADE PROPOSALS:'' @ [CHR 0x0A] @ ''- Trading not available''
      \<and> worldInfo c =
          ''WORLD INFORMATION:''
          @ [CHR 0x0A]
          @ ''- World Size: '' @ Number_toString (worldWidth w) @ ''x'' @ Number_toString (worldHeight w) @ '' units''
          @ [CHR 0x0A]
          @ ''- Total NPCs in world: '' @ Number_toString (int (length (getAllAgents w)))
          @ [CHR 0x0A]
          @ ''- Total items in world: '' @ Number_toString (int (length (getAllItems w)))
          @ [CHR 0x0A]
          @ ''- Remember: You can move around, interact with items, manage generators, trade resources, and converse with players and other NPCs''
      \<and> fullContext c =
          ''=== CURRENT CONTEXT ===''
          @ [CHR 0x0A, CHR 0x0A]
          @ ''YOUR CURRENT STATUS:''
          @ [CHR 0x0A]
          @ ''- Name: '' @ agent_name agent
          @ [CHR 0x0A]
          @ ''- Description: '' @ agent_description agent
          @ [CHR 0x0A]
          @ ''- Current Position: ('' @ Number_toString (Math_round (pos_x (agent_position agent)))
              @ '', '' @ Number_toString (Math_round (pos_y (agent_position agent))) @ '')''
          @ [CHR 0x0A]
          @ ''- Your Sui Wallet Address: '' @ suiAddress agent
          @ [CHR 0x0A]
          @ ''- You are currently in the game world. Remember to roleplay as your character.''
          @ [CHR 0x0A, CHR 0x0A]
          @ ''YOUR RESOURCES:''
          @ [CHR 0x0A]
          @ ''- Resource tracking not available''
          @ [CHR 0x0A, CHR 0x0A]
          @ buildNearbyAgentsInfo w agent r
          @ [CHR 0x0A, CHR 0x0A]
          @ ''NEARBY PLAYERS:''
          @ [CHR 0x0A]
          @ ''- Player tracking not available''
          @ [CHR 0x0A, CHR 0x0A]
          @ ''NEARBY GENERATORS:''
          @ [CHR 0x0A]
          @ ''- Generator tracking not available''
          @ [CHR 0x0A, CHR 0x0A]
          @ buildNearbyItemsInfo w agent r
          @ [CHR 0x0A, CHR 0x0A]
          @ ''TRADE PROPOSALS:''
          @ [CHR 0x0A]
          @ ''- Trading not available''
          @ [CHR 0x0A, CHR 0x0A]
          @ ''WORLD INFORMATION:''
          @ [CHR 0x0A]
          @ ''- World Size: '' @ Number_toString (worldWidth w) @ ''x'' @ Number_toString (worldHeight w) @ '' units''
          @ [CHR 0x0A]
          @ ''- Total NPCs in world: '' @ Number_toString (int (length (getAllAgents w)))
          @ [CHR 0x0A]
          @ ''- Total items in world: '' @ Number_toString (int (length (getAllItems w)))
          @ [CHR 0x0A]
          @ ''- Remember: You can move around, interact with items, manage generators, trade resources, and converse with players and other NPCs''
          @ [CHR 0x0A, CHR 0x0A]
          @ ''===================''"
proof -
  obtain r3 where s3: "buildNearbyAgentsInfo w agent r = ''NEARBY NPCs:'' @ [CHR 0x0A] @ r3"
    using buildNearbyAgentsInfo_section by blast
  obtain r6 where s6: "buildNearbyItemsInfo w agent r = ''NEARBY ITEMS:'' @ [CHR 0x0A] @ r6"
    using buildNearbyItemsInfo_section by blast
  have ne: "length (buildNearbyAgentsInfo w agent r) > 0" "length (buildNearbyItemsInfo w agent r) > 0"
    unfolding s3 s6 by simp_all
  have b: "buildSelfInfo None agent = Inr
          (''YOUR CURRENT STATUS:''
          @ [CHR 0x0A]
          @ ''- Name: '' @ agent_name agent
          @ [CHR 0x0A]
          @ ''- Description: '' @ agent_description agent
          @ [CHR 0x0A]
          @ ''- Current Position: ('' @ Number_toString (Math_round (pos_x (agent_position agent)))
              @ '', '' @ Number_toString (Math_round (pos_y (agent_position agent))) @ '')''
          @ [CHR 0x0A]
          @ ''- Your Sui Wallet Address: '' @ suiAddress agent
          @ [CHR 0x0A]
          @ ''- You are currently in the game world. Remember to roleplay as your character.'')"
    "buildResourcesInfo None agent = Inr (''YOUR RESOURCES:'' @ [CHR 0x0A] @ ''- Resource tracking not available'')"
    "buildNearbyPlayersInfo None None agent r = Inr (''NEARBY PLAYERS:'' @ [CHR 0x0A] @ ''- Player tracking not available'')"
    "buildNearbyGeneratorsInfo None agent r = Inr (''NEARBY GENERATORS:'' @ [CHR 0x0A] @ ''- Generator tracking not available'')"
    "buildTradeProposalsInfo None agent = Inr (''TRADE PROPOSALS:'' @ [CHR 0x0A] @ ''- Trading not available'')"
    "buildWorldInfo w None = Inr
          (''WORLD INFORMATION:''
          @ [CHR 0x0A]
          @ ''- World Size: '' @ Number_toString (worldWidth w) @ ''x'' @ Number_toString (worldHeight w) @ '' units''
          @ [CHR 0x0A]
          @ ''- Total NPCs in world: '' @ Number_toString (int (length (getAllAgents w)))
          @ [CHR 0x0A]
          @ ''- Total items in world: '' @ Number_toString (int (length (getAllItems w)))
          @ [CHR 0x0A]
          @ ''- Remember: You can move around, interact with items, manage generators, trade resources, and converse with players and other NPCs'')"
    by (simp_all add: buildSelfInfo_def buildResourcesInfo_def buildNearbyPlayersInfo_def
        buildNearbyGeneratorsInfo_def buildTradeProposalsInfo_def buildWorldInfo_def await_def
        nl_def Let_def)
  show ?thesis
    unfolding generateAgentContext_def b await_Inr Let_def
    using ne by (simp add: nl_def)
qed

theorem context_without_collaborators_witness:
  "\<exists>c. generateAgentContext (ex_world (Some ''player-1'')) None None ex_agent 20 = Inr c
      \<and> fullContext c =
       ''=== CURRENT CONTEXT ===''
       @ [CHR 0x0A, CHR 0x0A]
       @ ''YOUR CURRENT STATUS:''
       @ [CHR 0x0A]
       @ ''- Name: Bob''
       @ [CHR 0x0A]
       @ ''- Description: a trader''
       @ [CHR 0x0A]
       @ ''- Current Position: (50, 50)''
       @ [CHR 0x0A]
       @ ''- Your Sui Wallet Address: 0xb0b''
       @ [CHR 0x0A]
       @ ''- You are currently in the game world. Remember to roleplay as your character.''
       @ [CHR 0x0A, CHR 0x0A]
       @ ''YOUR RESOURCES:''
       @ [CHR 0x0A]
       @ ''- Resource tracking not available''
       @ [CHR 0x0A, CHR 0x0A]
       @ ''NEARBY NPCs:''
       @ [CHR 0x0A]
       @ ''- None within visible range''
       @ [CHR 0x0A, CHR 0x0A]
       @ ''NEARBY PLAYERS:''
       @ [CHR 0x0A]
       @ ''- Player tracking not available''
       @ [CHR 0x0A, CHR 0x0A]
       @ ''NEARBY GENERATORS:''
       @ [CHR 0x0A]
       @ ''- Generator tracking not available''
       @ [CHR 0x0A, CHR 0x0A]
       @ ''NEARBY ITEMS:''
       @ [CHR 0x0A]
       @ ''- None within visible range''
       @ [CHR 0x0A, CHR 0x0A]
       @ ''TRADE PROPOSALS:''
       @ [CHR 0x0A]
       @ ''- Trading not available''
       @ [CHR 0x0A, CHR 0x0A]
       @ ''WORLD INFORMATION:''
       @ [CHR 0x0A]
       @ ''- World Size: 100x100 units''
       @ [CHR 0x0A]
       @ ''- Total NPCs in world: 0''
       @ [CHR 0x0A]
       @ ''- Total items in world: 0''
       @ [CHR 0x0A]
       @ ''- Remember: You can move around, interact with items, manage generators, trade resources, and converse with players and other NPCs''
       @ [CHR 0x0A, CHR 0x0A]
       @ ''===================''"
proof -
  let ?w = "ex_world (Some ''player-1'')"
  obtain c where c: "generateAgentContext ?w None None ex_agent 20 = Inr c"
    and full: "fullContext c =
          ''=== CURRENT CONTEXT ===''
          @ [CHR 0x0A, CHR 0x0A]
          @ ''YOUR CURRENT STATUS:''
          @ [CHR 0x0A]
          @ ''- Name: '' @ agent_name ex_agent
          @ [CHR 0x0A]
          @ ''- Description: '' @ agent_description ex_agent
          @ [CHR 0x0A]
          @ ''- Current Position: ('' @ Number_toString (Math_round (pos_x (agent_position ex_agent)))
              @ '', '' @ Number_toString (Math_round (pos_y (agent_position ex_agent))) @ '')''
          @ [CHR 0x0A]
          @ ''- Your Sui Wallet Address: '' @ suiAddress ex_agent
          @ [CHR 0x0A]
          @ ''- You are currently in the game world. Remember to roleplay as your character.''
          @ [CHR 0x0A, CHR 0x0A]
          @ ''YOUR RESOURCES:''
          @ [CHR 0x0A]
          @ ''- Resource tracking not available''
          @ [CHR 0x0A, CHR 0x0A]
          @ buildNearbyAgentsInfo ?w ex_agent 20
          @ [CHR 0x0A, CHR 0x0A]
          @ ''NEARBY PLAYERS:''
          @ [CHR 0x0A]
          @ ''- Player tracking not available''
          @ [CHR 0x0A, CHR 0x0A]
          @ ''NEARBY GENERATORS:''
          @ [CHR 0x0A]
          @ ''- Generator tracking not available''
          @ [CHR 0x0A, CHR 0x0A]
          @ buildNearbyItemsInfo ?w ex_agent 20
          @ [CHR 0x0A, CHR 0x0A]
          @ ''TRADE PROPOSALS:''
          @ [CHR 0x0A]
          @ ''- Trading not available''
          @ [CHR 0x0A, CHR 0x0A]
          @ ''WORLD INFORMATION:''
          @ [CHR 0x0A]
          @ ''- World Size: '' @ Number_toString (worldWidth ?w) @ ''x'' @ Number_toString (worldHeight ?w) @ '' units''
          @ [CHR 0x0A]
          @ ''- Total NPCs in world: '' @ Number_toString (int (length (getAllAgents ?w)))
          @ [CHR 0x0A]
          @ ''- Total items in world: '' @ Number_toString (int (length (getAllItems ?w)))
          @ [CHR 0x0A]
          @ ''- Remember: You can move around, interact with items, manage generators, trade resources, and converse with players and other NPCs''
          @ [CHR 0x0A, CHR 0x0A]
          @ ''===================''"
    using context_without_collaborators [of ?w ex_agent 20] by blast
  have a: "buildNearbyAgentsInfo ?w ex_agent 20 = ''NEARBY NPCs:'' @ [CHR 0x0A] @ ''- None within visible range''"
    by (simp add: buildNearbyAgentsInfo_def ex_world_empty_views nl_def)
  have i: "buildNearbyItemsInfo ?w ex_agent 20 = ''NEARBY ITEMS:'' @ [CHR 0x0A] @ ''- None within visible range''"
    by (simp add: buildNearbyItemsInfo_def ex_world_empty_views nl_def)
  have v: "agent_name ex_agent = ''Bob''" "agent_description ex_agent = ''a trader''"
    "suiAddress ex_agent = ''0xb0b''"
    "Number_toString (Math_round (pos_x (agent_position ex_agent))) = ''50''"
    "Number_toString (Math_round (pos_y (agent_position ex_agent))) = ''50''"
    "Number_toString (worldWidth ?w) = ''100''" "Number_toString (worldHeight ?w) = ''100''"
    "Number_toString (int (length (getAllAgents ?w))) = ''0''"
    "Number_toString (int (length (getAllItems ?w))) = ''0''"
    by (simp_all add: ex_agent_def Math_round_50 ex_world_empty_views Number_toString_samples)
  have t: "''- Name: '' @ ''Bob'' @ rest = ''- Name: Bob'' @ rest"
    "''- Description: '' @ ''a trader'' @ rest = ''- Description: a trader'' @ rest"
    "''- Current Position: ('' @ ''50'' @ '', '' @ ''50'' @ '')'' @ rest
       = ''- Current Position: (50, 50)'' @ rest"
    "''- Your Sui Wallet Address: '' @ ''0xb0b'' @ rest = ''- Your Sui Wallet Address: 0xb0b'' @ rest"
    "''- World Size: '' @ ''100'' @ ''x'' @ ''100'' @ '' units'' @ rest
       = ''- World Size: 100x100 units'' @ rest"
    "''- Total NPCs in world: '' @ ''0'' @ rest = ''- Total NPCs in world: 0'' @ rest"
    "''- Total items in world: '' @ ''0'' @ rest = ''- Total items in world: 0'' @ rest"
    for rest :: string
    by simp_all
  have "fullContext c =
       ''=== CURRENT CONTEXT ===''
       @ [CHR 0x0A, CHR 0x0A]
       @ ''YOUR CURRENT STATUS:''
       @ [CHR 0x0A]
       @ ''- Name: Bob''
       @ [CHR 0x0A]
       @ ''- Description: a trader''
       @ [CHR 0x0A]
       @ ''- Current Position: (50, 50)''
       @ [CHR 0x0A]
       @ ''- Your Sui Wallet Address: 0xb0b''
       @ [CHR 0x0A]
       @ ''- You are currently in the game world. Remember to roleplay as your character.''
       @ [CHR 0x0A, CHR 0x0A]
       @ ''YOUR RESOURCES:''
       @ [CHR 0x0A]
       @ ''- Resource tracking not available''
       @ [CHR 0x0A, CHR 0x0A]
       @ ''NEARBY NPCs:''
       @ [CHR 0x0A]
       @ ''- None within visible range''
       @ [CHR 0x0A, CHR 0x0A]
       @ ''NEARBY PLAYERS:''
       @ [CHR 0x0A]
       @ ''- Player tracking not available''
       @ [CHR 0x0A, CHR 0x0A]
       @ ''NEARBY GENERATORS:''
       @ [CHR 0x0A]
       @ ''- Generator tracking not available''
       @ [CHR 0x0A, CHR 0x0A]
       @ ''NEARBY ITEMS:''
       @ [CHR 0x0A]
       @ ''- None within visible range''
       @ [CHR 0x0A, CHR 0x0A]
       @ ''TRADE PROPOSALS:''
       @ [CHR 0x0A]
       @ ''- Trading not available''
       @ [CHR 0x0A, CHR 0x0A]
       @ ''WORLD INFORMATION:''
       @ [CHR 0x0A]
       @ ''- World Size: 100x100 units''
       @ [CHR 0x0A]
       @ ''- Total NPCs in world: 0''
       @ [CHR 0x0A]
       @ ''- Total items in world: 0''
       @ [CHR 0x0A]
       @ ''- Remember: You can move around, interact with items, manage generators, trade resources, and converse with players and other NPCs''
       @ [CHR 0x0A, CHR 0x0A]
       @ ''===================''"
    unfolding full a i v by (simp only: append_assoc t)
  then show ?thesis using c by blast
qed


end
